theory Spec2Isabelle
  imports Complex_Main
begin

section \<open>Errors\<close>

text \<open>The exceptions that the modelled code raises, with what their messages name.\<close>

datatype message =
    FileDoesNotExist
  | UnsupportedFileExtension string
  | CouldNotLoadLayerstack
  | LayerstackMissingLayers
  | LayerMissingMetadata string
  | LayerMissingMetadataType string
  | LayerMissingProperties string
  | LayerMissingLyDt string
  | LayerMissingTop string
  | LayerMissingBot string
  | UnsupportedOutputFormat string
  | LayerMissingZh "int \<times> int"
  | LayerMissingTh "int \<times> int"
  | MaxEmptySequence

datatype error =
    AssertionError message
  | ValueError message
  | TypeError
  | IndexError
  | AttributeError
  | KeyError
  | OverflowError
  | GeometryError

section \<open>Python numbers\<close>

text \<open>
  The heights of the layer stack are the numbers that the YAML loader delivers: Python
  ints (unbounded) and Python floats (IEEE 754 binary64). A finite float is kept as the
  rational it denotes (the two zeros are identified), so that rounding can be written out.
\<close>

datatype number = PyInt int | PyFloat rat | PyInf bool | PyNaN

text \<open>The number of binary digits of a natural number.\<close>

fun bitlength :: "nat \<Rightarrow> nat" where
  "bitlength n = (if n = 0 then 0 else Suc (bitlength (n div 2)))"

declare bitlength.simps [simp del]

text \<open>For \<open>x > 0\<close>: the integer \<open>k\<close> with \<open>2\<^sup>k \<le> x < 2\<^sup>k\<^sup>+\<^sup>1\<close>.\<close>

definition floor_log2 :: "rat \<Rightarrow> int" where
  "floor_log2 x =
     (if 1 \<le> x then int (bitlength (nat \<lfloor>x\<rfloor>)) - 1
      else - int (bitlength (nat (\<lceil>1 / x\<rceil> - 1))))"

text \<open>The nearest integer to \<open>y \<ge> 0\<close>, a tie going to the even one.\<close>

definition round_half_even :: "rat \<Rightarrow> int" where
  "round_half_even y =
     (let f = \<lfloor>y\<rfloor>; r = y - of_int f
      in if r < 1 / 2 then f else if 1 / 2 < r then f + 1 else if even f then f else f + 1)"

text \<open>
  Rounding of an exact value to binary64, to nearest, ties to even: 53 significant bits,
  the exponent of the last bit not below \<open>-1074\<close> (subnormal numbers), and infinity when
  the rounded value reaches \<open>2\<^sup>1\<^sup>0\<^sup>2\<^sup>4\<close>. The argument of \<open>PyInf\<close> says whether the
  infinity is negative.
\<close>

definition round_double :: "rat \<Rightarrow> number" where
  "round_double x =
     (if x = 0 then PyFloat 0
      else
        (let a = \<bar>x\<bar>;
             e = max (floor_log2 a - 52) (- 1074);
             r = of_int (round_half_even (a / 2 powi e)) * 2 powi e
         in if 1024 \<le> floor_log2 r then PyInf (x < 0)
            else PyFloat (if x < 0 then - r else r)))"

text \<open>A decimal literal of the YAML file that is read as a float, such as \<^verbatim>\<open>0.03\<close>.\<close>

definition float_literal :: "rat \<Rightarrow> number" where
  "float_literal x = round_double x"

text \<open>
  The conversion of a number to float that mixed arithmetic applies to an int; Python
  raises OverflowError for an int too large for a float.
\<close>

definition to_float :: "number \<Rightarrow> error + number" where
  "to_float n =
     (case n of
        PyInt i \<Rightarrow> (case round_double (of_int i) of PyInf s \<Rightarrow> Inl OverflowError | f \<Rightarrow> Inr f)
      | f \<Rightarrow> Inr f)"

definition float_neg :: "number \<Rightarrow> number" where
  "float_neg a =
     (case a of PyFloat x \<Rightarrow> PyFloat (- x) | PyInf s \<Rightarrow> PyInf (\<not> s) | other \<Rightarrow> other)"

definition float_add :: "number \<Rightarrow> number \<Rightarrow> number" where
  "float_add a b =
     (case (a, b) of
        (PyFloat x, PyFloat y) \<Rightarrow> round_double (x + y)
      | (PyFloat x, PyInf t) \<Rightarrow> PyInf t
      | (PyInf s, PyFloat y) \<Rightarrow> PyInf s
      | (PyInf s, PyInf t) \<Rightarrow> (if s = t then PyInf s else PyNaN)
      | _ \<Rightarrow> PyNaN)"

text \<open>
  Python's \<^verbatim>\<open>a + b\<close> and \<^verbatim>\<open>a - b\<close>: exact on two ints, otherwise both operands are
  taken as floats and the result is rounded.
\<close>

definition py_add :: "number \<Rightarrow> number \<Rightarrow> error + number" where
  "py_add a b =
     (case (a, b) of
        (PyInt i, PyInt j) \<Rightarrow> Inr (PyInt (i + j))
      | _ \<Rightarrow>
          (case to_float a of
             Inl e \<Rightarrow> Inl e
           | Inr fa \<Rightarrow> (case to_float b of Inl e \<Rightarrow> Inl e | Inr fb \<Rightarrow> Inr (float_add fa fb))))"

definition py_sub :: "number \<Rightarrow> number \<Rightarrow> error + number" where
  "py_sub a b =
     (case (a, b) of
        (PyInt i, PyInt j) \<Rightarrow> Inr (PyInt (i - j))
      | _ \<Rightarrow>
          (case to_float a of
             Inl e \<Rightarrow> Inl e
           | Inr fa \<Rightarrow>
               (case to_float b of Inl e \<Rightarrow> Inl e | Inr fb \<Rightarrow> Inr (float_add fa (float_neg fb)))))"

text \<open>
  Python's \<^verbatim>\<open>a == b\<close> on numbers: the exact values are compared (also between an int
  and a float), and a NaN equals nothing.
\<close>

definition py_eq :: "number \<Rightarrow> number \<Rightarrow> bool" where
  "py_eq a b =
     (case (a, b) of
        (PyInt i, PyInt j) \<Rightarrow> i = j
      | (PyInt i, PyFloat y) \<Rightarrow> of_int i = y
      | (PyFloat x, PyInt j) \<Rightarrow> x = of_int j
      | (PyFloat x, PyFloat y) \<Rightarrow> x = y
      | (PyInf s, PyInf t) \<Rightarrow> s = t
      | _ \<Rightarrow> False)"

section \<open>layout3mesh: polygon winding classification and shell/hole assembly\<close>

text \<open>
  The polygon part of \<^verbatim>\<open>render_to_mesh\<close> (layout3mesh.py, the body of the loop over
  \<^verbatim>\<open>layer_polys\<close>) and the helper \<^verbatim>\<open>_is_counter_clockwise\<close>.

  A vertex is a row of the polygon's \<^verbatim>\<open>points\<close> array, a pair of coordinates. The
  coordinates are modelled as exact rationals: the source computes on IEEE doubles, so the
  model agrees with it wherever the products and differences of the cross product are
  exact (in particular on integer coordinates of moderate size).
\<close>

type_synonym point = "rat \<times> rat"
type_synonym edge = "point \<times> point"

text \<open>\<^verbatim>\<open>e[1] - e[0]\<close>: the direction vector of an edge.\<close>

definition vec :: "edge \<Rightarrow> point" where
  "vec e = (fst (snd e) - fst (fst e), snd (snd e) - snd (fst e))"

text \<open>\<^verbatim>\<open>np.cross\<close> of two 2-vectors: the scalar \<open>a\<^sub>0 b\<^sub>1 - a\<^sub>1 b\<^sub>0\<close>.\<close>

definition cross :: "point \<Rightarrow> point \<Rightarrow> rat" where
  "cross a b = fst a * snd b - snd a * fst b"

text \<open>\<^verbatim>\<open>_is_counter_clockwise(e1, e2)\<close>: \<^verbatim>\<open>np.cross(vec1, vec2) <= 0\<close>.\<close>

definition is_counter_clockwise :: "edge \<Rightarrow> edge \<Rightarrow> bool" where
  "is_counter_clockwise e1 e2 = (let vec1 = vec e1; vec2 = vec e2 in cross vec1 vec2 \<le> 0)"

text \<open>\<^verbatim>\<open>edges = list(zip(vertices[:-1], vertices[1:]))\<close>\<close>

definition edges :: "point list \<Rightarrow> edge list" where
  "edges vertices = zip (butlast vertices) (tl vertices)"

text \<open>\<^verbatim>\<open>edge_pairs = list(zip(edges[:-1], edges[1:]))\<close>\<close>

definition edge_pairs :: "point list \<Rightarrow> (edge \<times> edge) list" where
  "edge_pairs vertices = (let es = edges vertices in zip (butlast es) (tl es))"

text \<open>
  \<^verbatim>\<open>list(OrderedDict.fromkeys(xs))\<close>: the keys are inserted one by one, and a key that
  is already present keeps its first position.
\<close>

definition fromkeys :: "'a list \<Rightarrow> 'a list" where
  "fromkeys xs = foldl (\<lambda>d k. if k \<in> set d then d else d @ [k]) [] xs"

text \<open>
  \<^verbatim>\<open>[acc.extend(list(ep)) for ep in edge_pairs if c(ep)]\<close>: both edges of every selected
  pair, in order.
\<close>

definition extend_pairs :: "(edge \<times> edge \<Rightarrow> bool) \<Rightarrow> (edge \<times> edge) list \<Rightarrow> edge list" where
  "extend_pairs c eps = concat (map (\<lambda>ep. [fst ep, snd ep]) (filter c eps))"

text \<open>\<^verbatim>\<open>[acc.append(tuple(v)) for e in es for v in e]\<close>\<close>

definition edge_vertices :: "edge list \<Rightarrow> point list" where
  "edge_vertices es = concat (map (\<lambda>e. [fst e, snd e]) es)"

text \<open>The shell: lines 226 to 232 of layout3mesh.py.\<close>

definition shell :: "point list \<Rightarrow> point list" where
  "shell vertices =
     (let shell_edges = extend_pairs (\<lambda>ep. is_counter_clockwise (fst ep) (snd ep)) (edge_pairs vertices);
          shell_edges = fromkeys shell_edges
      in fromkeys (edge_vertices shell_edges))"

text \<open>The holes: lines 235 to 243; the deduplicated edges are reversed (\<^verbatim>\<open>[::-1]\<close>).\<close>

definition holes :: "point list \<Rightarrow> point list" where
  "holes vertices =
     (let holes_edges = extend_pairs (\<lambda>ep. \<not> is_counter_clockwise (fst ep) (snd ep)) (edge_pairs vertices);
          holes_edges = fromkeys holes_edges;
          holes_edges = rev holes_edges
      in fromkeys (edge_vertices holes_edges))"

section \<open>Layer stack: data.py and load_layerstack\<close>

subsection \<open>The data classes\<close>

text \<open>The field \<^verbatim>\<open>text\<close> of \<^verbatim>\<open>Material\<close> is called \<open>text_field\<close> here.\<close>

record Material =
  text_field :: "string option"
  rgba :: "int list option"

record LayerMetadata =
  type :: string
  keys :: "string list option"
  material :: Material

text \<open>
  The fields \<^verbatim>\<open>top\<close> and \<open>bot\<close> hold layer names; they are called \<open>top_name\<close> and
  \<open>bot_name\<close> here. Heights and thicknesses are Python numbers.
\<close>

record LayerProperties =
  ly :: int
  dt :: int
  top_name :: "string option"
  bot_name :: "string option"
  zh :: "number option"
  th :: "number option"
  mw :: "number option"
  sqrres :: "number option"
  dc_avgcd :: "number option"
  ac_rmscd :: "number option"
  sqrcap :: "number option"

record Layer =
  name :: string
  lydt :: "int \<times> int"
  metadata :: "LayerMetadata option"
  properties :: "LayerProperties option"

text \<open>
  A Python dict is an association list in insertion order with distinct keys: storing
  under a key that is present replaces the value in place, storing under a new key
  appends.
\<close>

type_synonym ('k, 'v) dict = "('k \<times> 'v) list"

fun setitem :: "('k, 'v) dict \<Rightarrow> 'k \<Rightarrow> 'v \<Rightarrow> ('k, 'v) dict" where
  "setitem [] k v = [(k, v)]"
| "setitem ((k', v') # d) k v = (if k' = k then (k, v) # d else (k', v') # setitem d k v)"

definition dict_get :: "('k, 'v) dict \<Rightarrow> 'k \<Rightarrow> 'v option" where
  "dict_get d k = map_of d k"

definition dict_values :: "('k, 'v) dict \<Rightarrow> 'v list" where
  "dict_values d = map snd d"

definition dict_keys :: "('k, 'v) dict \<Rightarrow> 'k list" where
  "dict_keys d = map fst d"

record LayerStack =
  layers :: "(int \<times> int, Layer) dict"

text \<open>\<^verbatim>\<open>LayerStack.__getitem__\<close>: \<^verbatim>\<open>self.layers.get(key)\<close>.\<close>

definition getitem :: "LayerStack \<Rightarrow> int \<times> int \<Rightarrow> Layer option" where
  "getitem self key = dict_get (layers self) key"

subsection \<open>The configuration document\<close>

text \<open>
  The parsed YAML, as far as \<^verbatim>\<open>load_layerstack\<close> reads it. A node on which the source
  calls \<^verbatim>\<open>.get\<close> is either a mapping or something else (null, a scalar or a
  sequence), on which \<^verbatim>\<open>.get\<close> raises AttributeError.
\<close>

datatype 'a node = Mapping 'a | NotMapping

text \<open>
  A field of a mapping is the result of \<^verbatim>\<open>.get(key)\<close>: \<open>None\<close> when the key is absent
  or null. The values of \<^verbatim>\<open>metadata\<close> and \<open>properties\<close>, which the source tests for truth
  before it reads them, are \<open>None\<close> when they are absent or false (null, an empty
  mapping, an empty string, zero), \<open>Some (Mapping m)\<close> for a non-empty mapping and
  \<open>Some NotMapping\<close> for any other true value.
\<close>

record yaml_metadata =
  y_type :: "string option"
  y_keys :: "string list option"
  y_rgba :: "int list option"
  y_text :: "string option"

record yaml_properties =
  y_ly :: "int option"
  y_dt :: "int option"
  y_zh :: "number option"
  y_th :: "number option"
  y_top :: "string option"
  y_bot :: "string option"

record yaml_layer =
  y_metadata :: "yaml_metadata node option"
  y_properties :: "yaml_properties node option"

text \<open>
  The file: whether the path exists, its extension, and what \<^verbatim>\<open>yaml.safe_load\<close> gave
  (\<open>None\<close> when opening or parsing raised). The document is the \<^verbatim>\<open>.items()\<close> of its
  \<^verbatim>\<open>layers\<close> mapping, in order; \<open>[]\<close> when \<^verbatim>\<open>layers\<close> is absent, null or empty.
\<close>

record layerstack_file =
  file_exists :: bool
  ext :: string
  loaded :: "(string \<times> yaml_layer node) list option"

definition LAYERSTACK_FILE_EXTENSIONS :: "string list" where
  "LAYERSTACK_FILE_EXTENSIONS = [''.yaml'', ''.yml'', ''.ymls'']"

text \<open>Python truth of an optional string: neither \<^verbatim>\<open>None\<close> nor empty.\<close>

definition truthy :: "string option \<Rightarrow> bool" where
  "truthy s = (case s of None \<Rightarrow> False | Some v \<Rightarrow> v \<noteq> [])"

subsection \<open>First loop: one Layer per named entry\<close>

text \<open>
  The body of the loop over \<^verbatim>\<open>layerstack_yaml["layers"].items()\<close>, lines 80 to 115.
  The first \<^verbatim>\<open>.get\<close> on the entry is in line 83, on its metadata in line 86, on its
  properties in line 98.
\<close>

definition make_layer :: "string \<Rightarrow> yaml_layer node \<Rightarrow> error + Layer" where
  "make_layer layerkey entry =
     (case entry of
        NotMapping \<Rightarrow> Inl AttributeError
      | Mapping layer \<Rightarrow>
          (case y_metadata layer of
             None \<Rightarrow> Inl (AssertionError (LayerMissingMetadata layerkey))
           | Some NotMapping \<Rightarrow> Inl AttributeError
           | Some (Mapping md) \<Rightarrow>
               (case y_type md of
                  None \<Rightarrow> Inl (AssertionError (LayerMissingMetadataType layerkey))
                | Some ty \<Rightarrow>
                    if ty = [] then Inl (AssertionError (LayerMissingMetadataType layerkey))
                    else
                      (case y_properties layer of
                         None \<Rightarrow> Inl (AssertionError (LayerMissingProperties layerkey))
                       | Some NotMapping \<Rightarrow> Inl AttributeError
                       | Some (Mapping pr) \<Rightarrow>
                           (case (y_ly pr, y_dt pr) of
                              (Some l, Some d) \<Rightarrow>
                                Inr \<lparr> name = layerkey, lydt = (l, d),
                                      metadata = Some \<lparr> type = ty, keys = y_keys md,
                                        material = \<lparr> text_field = y_text md, rgba = y_rgba md \<rparr> \<rparr>,
                                      properties = Some \<lparr> ly = l, dt = d,
                                        top_name = y_top pr, bot_name = y_bot pr,
                                        zh = y_zh pr, th = y_th pr,
                                        mw = None, sqrres = None, dc_avgcd = None,
                                        ac_rmscd = None, sqrcap = None \<rparr> \<rparr>
                            | _ \<Rightarrow> Inl (ValueError (LayerMissingLyDt layerkey)))))))"

fun build_layers ::
  "(string \<times> yaml_layer node) list \<Rightarrow> (int \<times> int, Layer) dict \<Rightarrow> error + (int \<times> int, Layer) dict" where
  "build_layers [] layerstack = Inr layerstack"
| "build_layers ((layerkey, layer) # items) layerstack =
     (case make_layer layerkey layer of
        Inl e \<Rightarrow> Inl e
      | Inr l \<Rightarrow> build_layers items (setitem layerstack (lydt l) l))"

subsection \<open>Second pass: heights of the via layers\<close>

text \<open>
  The pass mutates Layer objects that the dict holds. An object is identified by its
  position in \<^verbatim>\<open>layerstack.values()\<close>; the list of values is the store, and a write to
  \<^verbatim>\<open>via_layer.properties\<close> is a list update at the position of \<open>via_layer\<close>.
\<close>

definition layer_type :: "Layer \<Rightarrow> string option" where
  "layer_type l = map_option type (metadata l)"

text \<open>
  \<^verbatim>\<open>via_layers = [layer for layer in layerstack.values() if layer.metadata.type == "cut"]\<close>,
  as positions. A layer without metadata raises AttributeError.
\<close>

definition via_layers :: "Layer list \<Rightarrow> error + nat list" where
  "via_layers ls =
     (if \<exists>l \<in> set ls. metadata l = None then Inl AttributeError
      else Inr (filter (\<lambda>i. layer_type (ls ! i) = Some ''cut'') [0..<length ls]))"

text \<open>\<^verbatim>\<open>[layer for layer in layerstack.values() if layer.name == n][0]\<close>\<close>

definition by_name :: "Layer list \<Rightarrow> string option \<Rightarrow> Layer option" where
  "by_name ls n = find (\<lambda>l. Some (name l) = n) ls"

text \<open>
  One iteration of the loop over \<open>via_layers\<close>, lines 121 to 135. \<open>layerkey\<close> is the
  variable left over from the first loop, which the messages of the two assertions use.
  \<open>top_zh\<close> is read before \<open>zh\<close> is written. The sum and the difference are Python's.
\<close>

definition resolve_via :: "string \<Rightarrow> Layer list \<Rightarrow> nat \<Rightarrow> error + Layer list" where
  "resolve_via layerkey ls i =
     (let via_layer = ls ! i in
      case properties via_layer of
        None \<Rightarrow> Inl AttributeError
      | Some vp \<Rightarrow>
          if \<not> truthy (top_name vp) then Inl (AssertionError (LayerMissingTop layerkey))
          else if \<not> truthy (bot_name vp) then Inl (AssertionError (LayerMissingBot layerkey))
          else
            (case by_name ls (top_name vp) of
               None \<Rightarrow> Inl IndexError
             | Some top_layer \<Rightarrow>
                 (case by_name ls (bot_name vp) of
                    None \<Rightarrow> Inl IndexError
                  | Some bot_layer \<Rightarrow>
                      (case (properties bot_layer, properties top_layer) of
                         (Some bp, Some tp) \<Rightarrow>
                           (case (zh bp, th bp) of
                              (Some bot_zh, Some bot_th) \<Rightarrow>
                                (case py_add bot_zh bot_th of
                                   Inl e \<Rightarrow> Inl e
                                 | Inr new_zh \<Rightarrow>
                                     (case zh tp of
                                        None \<Rightarrow> Inl TypeError
                                      | Some top_zh \<Rightarrow>
                                          (case py_sub top_zh new_zh of
                                             Inl e \<Rightarrow> Inl e
                                           | Inr new_th \<Rightarrow>
                                               Inr (ls[i := via_layer\<lparr>properties :=
                                                 Some (vp\<lparr>zh := Some new_zh, th := Some new_th\<rparr>)\<rparr>]))))
                            | _ \<Rightarrow> Inl TypeError)
                       | _ \<Rightarrow> Inl AttributeError))))"

fun resolve_loop :: "string \<Rightarrow> nat list \<Rightarrow> Layer list \<Rightarrow> error + Layer list" where
  "resolve_loop layerkey [] ls = Inr ls"
| "resolve_loop layerkey (i # vias) ls =
     (case resolve_via layerkey ls i of
        Inl e \<Rightarrow> Inl e
      | Inr ls' \<Rightarrow> resolve_loop layerkey vias ls')"

definition resolve_vias ::
  "string \<Rightarrow> (int \<times> int, Layer) dict \<Rightarrow> error + (int \<times> int, Layer) dict" where
  "resolve_vias layerkey layerstack =
     (case via_layers (dict_values layerstack) of
        Inl e \<Rightarrow> Inl e
      | Inr vias \<Rightarrow>
          (case resolve_loop layerkey vias (dict_values layerstack) of
             Inl e \<Rightarrow> Inl e
           | Inr ls' \<Rightarrow> Inr (zip (dict_keys layerstack) ls')))"

subsection \<open>load_layerstack\<close>

definition load_layerstack :: "layerstack_file \<Rightarrow> error + LayerStack" where
  "load_layerstack fp =
     (if \<not> file_exists fp then Inl (AssertionError FileDoesNotExist)
      else if ext fp \<notin> set LAYERSTACK_FILE_EXTENSIONS
        then Inl (ValueError (UnsupportedFileExtension (ext fp)))
      else
        (case loaded fp of
           None \<Rightarrow> Inl (ValueError CouldNotLoadLayerstack)
         | Some layerstack_yaml \<Rightarrow>
             if layerstack_yaml = [] then Inl (ValueError LayerstackMissingLayers)
             else
               (case build_layers layerstack_yaml [] of
                  Inl e \<Rightarrow> Inl e
                | Inr layerstack \<Rightarrow>
                    (case resolve_vias (fst (last layerstack_yaml)) layerstack of
                       Inl e \<Rightarrow> Inl e
                     | Inr layerstack' \<Rightarrow> Inr \<lparr> layers = layerstack' \<rparr>))))"

section \<open>render_to_mesh\<close>

subsection \<open>The collaborators\<close>

text \<open>
  A cell of the layout (gdstk): its name, the value of \<^verbatim>\<open>area()\<close> and the polygon query
  \<^verbatim>\<open>get_polygons(layer=, datatype=)\<close>, which returns the vertex rings in a fixed order.
  The layout is the list \<^verbatim>\<open>layout.cells\<close>.
\<close>

record Cell =
  cell_name :: string
  cell_area :: rat
  get_polygons :: "int \<Rightarrow> int \<Rightarrow> point list list"

type_synonym colour = "int list option"
type_synonym colour_map = "(int \<times> int, (nat, colour) dict) dict"

text \<open>
  The scene (trimesh) is kept as what the source puts into it: a geometry node is one call
  of \<^verbatim>\<open>layer_canvas.add_geometry\<close> (node name, metadata id, the face colours assigned to
  the solid, the solid), a layer scene is one \<^verbatim>\<open>Scene(base_frame, metadata)\<close> with its
  nodes in the order added, and the canvas holds one call of \<^verbatim>\<open>canvas.add_geometry\<close>
  per layer (node name, metadata id, layer scene). The solid \<open>'g\<close> is whatever the
  extrusion returns.
\<close>

record 'g geometry_node =
  node_name :: string
  node_id :: string
  face_colors :: colour
  geometry :: 'g

record 'g layer_scene =
  layer_base_frame :: string
  layer_id :: string
  nodes :: "'g geometry_node list"

record 'g scene =
  base_frame :: string
  scene_id :: string
  children :: "(string \<times> string \<times> 'g layer_scene) list"

text \<open>
  What a call of \<^verbatim>\<open>render_to_mesh\<close> gives back and does: the scene, the path handed to
  \<^verbatim>\<open>canvas.export\<close> (if any), and the warnings it emitted.
\<close>

record 'g render_result =
  canvas :: "'g scene"
  exported :: "string option"
  warnings_emitted :: "string list"

definition OUT_FILE_EXTENSIONS :: "string list" where
  "OUT_FILE_EXTENSIONS = [''.gltf'', ''.glb'', ''.obj'', ''.stl'', ''.ply'']"

subsection \<open>Formatting integers\<close>

text \<open>\<^verbatim>\<open>str\<close> of a Python int, as the f-strings of the node names use it.\<close>

fun str_nat :: "nat \<Rightarrow> string" where
  "str_nat n =
     (if n < 10 then [''0123456789'' ! n]
      else str_nat (n div 10) @ [''0123456789'' ! (n mod 10)])"

declare str_nat.simps [simp del]

definition str_int :: "int \<Rightarrow> string" where
  "str_int i = (if i < 0 then ''-'' @ str_nat (nat (- i)) else str_nat (nat i))"

subsection \<open>Choice of the cell\<close>

text \<open>
  \<^verbatim>\<open>max(layout.cells, key=lambda cell: cell.area())\<close>: Python keeps the first element
  whose key is not exceeded, replacing the candidate only by a strictly larger one; an
  empty sequence raises ValueError.
\<close>

definition max_by_area :: "Cell list \<Rightarrow> error + Cell" where
  "max_by_area cells =
     (case cells of
        [] \<Rightarrow> Inl (ValueError MaxEmptySequence)
      | c # cs \<Rightarrow> Inr (foldl (\<lambda>best x. if cell_area best < cell_area x then x else best) c cs))"

text \<open>
  Lines 183 to 187. The statement \<^verbatim>\<open>Warning(f"Topcell ... not found ...")\<close> builds an
  exception object and drops it: nothing is raised and nothing is passed to a warning
  or logging facility, so the list of emitted warnings stays as it is. \<^verbatim>\<open>layout[topcell]\<close>
  is the first cell with that name.
\<close>

definition select_tcell :: "Cell list \<Rightarrow> string option \<Rightarrow> string list \<Rightarrow> error + (Cell \<times> string list)" where
  "select_tcell cells topcell emitted =
     (case max_by_area cells of
        Inl e \<Rightarrow> Inl e
      | Inr tcell \<Rightarrow>
          (case topcell of
             None \<Rightarrow> Inr (tcell, emitted)
           | Some t \<Rightarrow>
               if t \<notin> set (map cell_name cells) then Inr (tcell, emitted)
               else
                 (case find (\<lambda>c. cell_name c = t) cells of
                    None \<Rightarrow> Inl KeyError
                  | Some c \<Rightarrow> Inr (c, emitted))))"

subsection \<open>Colours\<close>

text \<open>
  Lines 193 to 202: without an explicit colour map every polygon of a layer gets the
  \<open>rgba\<close> of the layer's material. The material is read inside the loop over the
  polygons, so a layer without polygons is not looked at.
\<close>

fun default_cmap :: "Cell \<Rightarrow> LayerStack \<Rightarrow> (int \<times> int) list \<Rightarrow> colour_map \<Rightarrow> error + colour_map" where
  "default_cmap tcell layerstack [] cmap = Inr cmap"
| "default_cmap tcell layerstack ((layer, datatype) # ks) cmap =
     (let layer_polys = get_polygons tcell layer datatype in
      case (if layer_polys = [] then Inr []
            else
              (case getitem layerstack (layer, datatype) of
                 None \<Rightarrow> Inl AttributeError
               | Some l \<Rightarrow>
                   (case metadata l of
                      None \<Rightarrow> Inl AttributeError
                    | Some md \<Rightarrow>
                        Inr (map (\<lambda>idx. (idx, rgba (material md))) [0..<length layer_polys])))) of
        Inl e \<Rightarrow> Inl e
      | Inr layer_cmap \<Rightarrow>
          default_cmap tcell layerstack ks (setitem cmap (layer, datatype) layer_cmap))"

subsection \<open>Polygons of a layer\<close>

text \<open>
  Lines 220 to 258, for the polygons from index \<open>idx\<close> on (the source's \<^verbatim>\<open>id\<close>). \<open>extrude_polygon\<close> stands for
  \<^verbatim>\<open>Polygon(shell=shell, holes=holes)\<close> followed by \<^verbatim>\<open>creation.extrude_polygon\<close> with the
  height and the translation by \<open>zbot\<close>; both belong to libraries and may raise.
\<close>

fun render_polys ::
  "(point list \<Rightarrow> point list \<Rightarrow> number \<Rightarrow> number \<Rightarrow> error + 'g) \<Rightarrow> colour_map \<Rightarrow> int \<Rightarrow> int \<Rightarrow>
   number \<Rightarrow> number \<Rightarrow> nat \<Rightarrow> point list list \<Rightarrow> error + 'g geometry_node list" where
  "render_polys extrude_polygon cmap layer datatype height zbot idx [] = Inr []"
| "render_polys extrude_polygon cmap layer datatype height zbot idx (vertices # polys) =
     (case extrude_polygon (shell vertices) (holes vertices) height zbot of
        Inl e \<Rightarrow> Inl e
      | Inr poly3D \<Rightarrow>
          (case dict_get cmap (layer, datatype) of
             None \<Rightarrow> Inl KeyError
           | Some layer_cmap \<Rightarrow>
               (case dict_get layer_cmap idx of
                  None \<Rightarrow> Inl KeyError
                | Some c \<Rightarrow>
                    (case render_polys extrude_polygon cmap layer datatype height zbot (Suc idx) polys of
                       Inl e \<Rightarrow> Inl e
                     | Inr ns \<Rightarrow>
                         Inr (\<lparr> node_name = str_int layer @ '','' @ str_int datatype @ '','' @ str_nat idx,
                                node_id = str_int layer @ '','' @ str_int datatype @ '','' @ str_nat idx,
                                face_colors = c, geometry = poly3D \<rparr> # ns)))))"

subsection \<open>Layers\<close>

text \<open>Lines 204 to 259: one layer scene per key of the stack, in the order of the keys.\<close>

fun render_layers ::
  "(point list \<Rightarrow> point list \<Rightarrow> number \<Rightarrow> number \<Rightarrow> error + 'g) \<Rightarrow> colour_map \<Rightarrow> Cell \<Rightarrow> LayerStack \<Rightarrow>
   (int \<times> int) list \<Rightarrow> error + (string \<times> string \<times> 'g layer_scene) list" where
  "render_layers extrude_polygon cmap tcell layerstack [] = Inr []"
| "render_layers extrude_polygon cmap tcell layerstack ((layer, datatype) # ks) =
     (let layer_polys = get_polygons tcell layer datatype in
      case getitem layerstack (layer, datatype) of
        None \<Rightarrow> Inl AttributeError
      | Some l \<Rightarrow>
          (case properties l of
             None \<Rightarrow> Inl AttributeError
           | Some pr \<Rightarrow>
               (case zh pr of
                  None \<Rightarrow> Inl (AssertionError (LayerMissingZh (layer, datatype)))
                | Some zbot \<Rightarrow>
                    (case th pr of
                       None \<Rightarrow> Inl (AssertionError (LayerMissingTh (layer, datatype)))
                     | Some height \<Rightarrow>
                         (case render_polys extrude_polygon cmap layer datatype height zbot 0 layer_polys of
                            Inl e \<Rightarrow> Inl e
                          | Inr ns \<Rightarrow>
                              (case render_layers extrude_polygon cmap tcell layerstack ks of
                                 Inl e \<Rightarrow> Inl e
                               | Inr rest \<Rightarrow>
                                   Inr ((str_int layer @ '','' @ str_int datatype,
                                         str_int layer @ '','' @ str_int datatype,
                                         \<lparr> layer_base_frame = cell_name tcell,
                                           layer_id = str_int layer @ '','' @ str_int datatype @ '','' @ name l,
                                           nodes = ns \<rparr>) # rest)))))))"

subsection \<open>render_to_mesh\<close>

text \<open>
  \<open>suffix_of\<close> stands for \<^verbatim>\<open>Path(out).suffix\<close>. An output path is given when \<open>out\<close> is
  neither \<^verbatim>\<open>None\<close> nor the empty string (\<^verbatim>\<open>if out:\<close>).
\<close>

definition render_to_mesh ::
  "(string \<Rightarrow> string) \<Rightarrow> (point list \<Rightarrow> point list \<Rightarrow> number \<Rightarrow> number \<Rightarrow> error + 'g) \<Rightarrow>
   Cell list \<Rightarrow> LayerStack \<Rightarrow> string option \<Rightarrow> string option \<Rightarrow> colour_map option \<Rightarrow>
   error + 'g render_result" where
  "render_to_mesh suffix_of extrude_polygon layout layerstack topcell out cmap =
     (if truthy out \<and> suffix_of (the out) \<notin> set OUT_FILE_EXTENSIONS
      then Inl (AssertionError (UnsupportedOutputFormat (suffix_of (the out))))
      else
        (case select_tcell layout topcell [] of
           Inl e \<Rightarrow> Inl e
         | Inr (tcell, emitted) \<Rightarrow>
             (case (case cmap of
                      None \<Rightarrow> default_cmap tcell layerstack (dict_keys (layers layerstack)) []
                    | Some cm \<Rightarrow> Inr cm) of
                Inl e \<Rightarrow> Inl e
              | Inr cm \<Rightarrow>
                  (case render_layers extrude_polygon cm tcell layerstack (dict_keys (layers layerstack)) of
                     Inl e \<Rightarrow> Inl e
                   | Inr cs \<Rightarrow>
                       Inr \<lparr> canvas = \<lparr> base_frame = cell_name tcell, scene_id = cell_name tcell,
                                        children = cs \<rparr>,
                             exported = (if truthy out then out else None),
                             warnings_emitted = emitted \<rparr>))))"

section \<open>The solid extruder of the specification\<close>

text \<open>
  Modelled from the spec: the extrusion itself (shapely's \<^verbatim>\<open>Polygon\<close> and trimesh's
  \<^verbatim>\<open>creation.extrude_polygon\<close>, which \<^verbatim>\<open>render_to_mesh\<close> calls) is not among the
  repository's files. Section 4.4 of the specification: the input is a shell+holes
  planar shape, a base height \<open>zbase\<close> and a thickness \<open>height\<close>; the extrusion fails
  if \<open>height \<le> 0\<close> or if the shell is degenerate (fewer than 3 distinct, non-collinear
  points); it produces a solid with side walls following the shell and hole boundaries
  and flat caps at \<open>z = zbase\<close> and \<open>z = zbase + height\<close>. Heights are taken as the exact
  numbers of the specification's formula.
\<close>

text \<open>
  Modelled from the spec: a shell is not degenerate when three of its points are not
  collinear (such points are distinct).
\<close>

definition non_degenerate :: "point list \<Rightarrow> bool" where
  "non_degenerate sh =
     list_ex (\<lambda>p. list_ex (\<lambda>q. list_ex (\<lambda>r. cross (vec (p, q)) (vec (p, r)) \<noteq> 0) sh) sh) sh"

text \<open>
  Modelled from the spec: the solid, as the boundary rings that its side walls follow and
  the corner points of the walls on the two caps.
\<close>

record solid =
  wall_rings :: "point list list"
  corners :: "(rat \<times> rat \<times> rat) list"

text \<open>
  Modelled from the spec: the extrusion of section 4.4. Every point of the shell and of
  the hole ring gives one corner on the cap at \<open>zbase\<close> and one on the cap at
  \<open>zbase + height\<close>.
\<close>

definition extrude_polygon_spec :: "point list \<Rightarrow> point list \<Rightarrow> rat \<Rightarrow> rat \<Rightarrow> error + solid" where
  "extrude_polygon_spec sh ho height zbase =
     (if height \<le> 0 \<or> \<not> non_degenerate sh then Inl GeometryError
      else Inr \<lparr> wall_rings = [sh, ho],
                 corners = map (\<lambda>p. (fst p, snd p, zbase)) (sh @ ho) @
                           map (\<lambda>p. (fst p, snd p, zbase + height)) (sh @ ho) \<rparr>)"

text \<open>The bounding interval of a solid in Z: the least and the greatest \<open>z\<close> of its corners.\<close>

definition z_extent :: "solid \<Rightarrow> (rat \<times> rat) option" where
  "z_extent s =
     (if corners s = [] then None
      else Some (Min (set (map (\<lambda>c. snd (snd c)) (corners s))),
                 Max (set (map (\<lambda>c. snd (snd c)) (corners s)))))"

section \<open>Predicates used to state the properties\<close>

text \<open>
  A named layer entry lacks something the loader requires: its metadata, the type in its
  metadata, its properties, or \<open>ly\<close> or \<open>dt\<close> among its properties. An entry, a
  metadata value or a properties value that is not a mapping holds none of them.
\<close>

definition lacks_required :: "yaml_layer node \<Rightarrow> bool" where
  "lacks_required entry =
     (case entry of
        NotMapping \<Rightarrow> True
      | Mapping layer \<Rightarrow>
          (case y_metadata layer of
             None \<Rightarrow> True
           | Some NotMapping \<Rightarrow> True
           | Some (Mapping md) \<Rightarrow>
               y_type md = None \<or>
               (case y_properties layer of
                  None \<Rightarrow> True
                | Some NotMapping \<Rightarrow> True
                | Some (Mapping pr) \<Rightarrow> y_ly pr = None \<or> y_dt pr = None)))"

text \<open>
  An entry is made of mappings: it is a mapping, and its metadata and properties, where
  present, are mappings.
\<close>

definition made_of_mappings :: "yaml_layer node \<Rightarrow> bool" where
  "made_of_mappings entry =
     (case entry of
        NotMapping \<Rightarrow> False
      | Mapping layer \<Rightarrow> y_metadata layer \<noteq> Some NotMapping \<and> y_properties layer \<noteq> Some NotMapping)"

text \<open>
  The configuration errors of the loader are its failed assertions and its ValueErrors.
\<close>

definition is_configuration_error :: "error \<Rightarrow> bool" where
  "is_configuration_error e =
     (case e of AssertionError m \<Rightarrow> True | ValueError m \<Rightarrow> True | _ \<Rightarrow> False)"

text \<open>A layer with the \<open>zh\<close> and \<open>th\<close> of its properties blanked: all its other fields.\<close>

definition erase_zh_th :: "Layer \<Rightarrow> Layer" where
  "erase_zh_th l = l\<lparr>properties := map_option (\<lambda>p. p\<lparr>zh := None, th := None\<rparr>) (properties l)\<rparr>"

text \<open>
  A via layer is resolved in a list of layers, as Python evaluates it: with \<open>bot\<close> and
  \<open>top\<close> the first layers of the list that carry the names in the via's \<open>bot\<close> and
  \<open>top\<close> properties, all the heights involved are numbers,
  \<^verbatim>\<open>zh_via == bot.zh + bot.th\<close> and \<^verbatim>\<open>zh_via + th_via == top.zh\<close>.
\<close>

definition via_resolved :: "Layer list \<Rightarrow> Layer \<Rightarrow> bool" where
  "via_resolved ls via =
     (case properties via of
        None \<Rightarrow> False
      | Some vp \<Rightarrow>
          (case (by_name ls (bot_name vp), by_name ls (top_name vp)) of
             (Some bot_layer, Some top_layer) \<Rightarrow>
               (case (properties bot_layer, properties top_layer) of
                  (Some bp, Some tp) \<Rightarrow>
                    (case (zh vp, th vp, zh bp, th bp, zh tp) of
                       (Some zv, Some tv, Some zb, Some tb, Some zt) \<Rightarrow>
                         (case (py_add zb tb, py_add zv tv) of
                            (Inr s, Inr u) \<Rightarrow> py_eq zv s \<and> py_eq u zt
                          | _ \<Rightarrow> False)
                     | _ \<Rightarrow> False)
                | _ \<Rightarrow> False)
           | _ \<Rightarrow> False))"

text \<open>
  The stored \<open>zh\<close> of the via properties \<open>vp\<close> is the result of Python's
  \<^verbatim>\<open>bot.zh + bot.th\<close>; the stored \<open>th\<close> is the result of Python's \<^verbatim>\<open>top.zh - zh\<close>.
\<close>

definition zh_is_sum :: "Layer \<Rightarrow> LayerProperties \<Rightarrow> bool" where
  "zh_is_sum bot_layer vp =
     (case properties bot_layer of
        None \<Rightarrow> False
      | Some bp \<Rightarrow>
          (case (zh bp, th bp, zh vp) of
             (Some zb, Some tb, Some zv) \<Rightarrow> py_add zb tb = Inr zv
           | _ \<Rightarrow> False))"

definition th_is_difference :: "Layer \<Rightarrow> LayerProperties \<Rightarrow> bool" where
  "th_is_difference top_layer vp =
     (case properties top_layer of
        None \<Rightarrow> False
      | Some tp \<Rightarrow>
          (case (zh tp, zh vp, th vp) of
             (Some zt, Some zv, Some tv) \<Rightarrow> py_sub zt zv = Inr tv
           | _ \<Rightarrow> False))"

text \<open>
  A layer referred to by the via at position \<open>i\<close> is settled when the pass does not
  change it after it has been read: it is not a cut layer, or it stands before the via
  in the stack (and so was resolved before it).
\<close>

definition settled :: "Layer list \<Rightarrow> nat \<Rightarrow> Layer \<Rightarrow> bool" where
  "settled ls i l = (layer_type l \<noteq> Some ''cut'' \<or> l \<in> set (take i ls))"

text \<open>The heights that a via reads from its \<open>bot\<close> and \<open>top\<close> layers are ints.\<close>

definition int_heights :: "Layer \<Rightarrow> Layer \<Rightarrow> bool" where
  "int_heights bot_layer top_layer =
     (case (properties bot_layer, properties top_layer) of
        (Some bp, Some tp) \<Rightarrow>
          (case (zh bp, th bp, zh tp) of
             (Some (PyInt a), Some (PyInt b), Some (PyInt c)) \<Rightarrow> True
           | _ \<Rightarrow> False)
      | _ \<Rightarrow> False)"

text \<open>\<open>j\<close> is the first position of \<open>ls\<close> whose layer carries the name \<open>n\<close>.\<close>

definition first_named :: "Layer list \<Rightarrow> string option \<Rightarrow> nat \<Rightarrow> bool" where
  "first_named ls n j =
     (j < length ls \<and> Some (name (ls ! j)) = n \<and> (\<forall>m < j. Some (name (ls ! m)) \<noteq> n))"

text \<open>
  What the pass establishes for the layer at position \<open>i\<close>: its \<open>bot\<close> and \<open>top\<close>
  names are found, at positions \<open>jb\<close> and \<open>jt\<close>; its \<open>zh\<close> is the sum when the layer
  at \<open>jb\<close> is not a cut layer or stands before it, and its \<open>th\<close> is the difference when
  the layer at \<open>jt\<close> is not a cut layer or stands before it.
\<close>

definition via_ok :: "Layer list \<Rightarrow> nat \<Rightarrow> bool" where
  "via_ok ls i =
     (\<exists>vp jb jt. properties (ls ! i) = Some vp \<and>
        first_named ls (bot_name vp) jb \<and> first_named ls (top_name vp) jt \<and>
        (layer_type (ls ! jb) \<noteq> Some ''cut'' \<or> jb < i \<longrightarrow> zh_is_sum (ls ! jb) vp) \<and>
        (layer_type (ls ! jt) \<noteq> Some ''cut'' \<or> jt < i \<longrightarrow> th_is_difference (ls ! jt) vp))"

text \<open>
  The outline of a scene: everything but the solids. Per layer the node name and
  metadata id given to the canvas, the base frame and id of the layer scene, and for each
  of its nodes the node name, the metadata id and the face colours.
\<close>

definition node_outline :: "'g geometry_node \<Rightarrow> string \<times> string \<times> colour" where
  "node_outline n = (node_name n, node_id n, face_colors n)"

definition layer_outline ::
  "string \<times> string \<times> 'g layer_scene \<Rightarrow> string \<times> string \<times> string \<times> string \<times> (string \<times> string \<times> colour) list" where
  "layer_outline c =
     (fst c, fst (snd c), layer_base_frame (snd (snd c)), layer_id (snd (snd c)),
      map node_outline (nodes (snd (snd c))))"

definition scene_outline ::
  "'g scene \<Rightarrow> string \<times> string \<times> (string \<times> string \<times> string \<times> string \<times> (string \<times> string \<times> colour) list) list" where
  "scene_outline sc = (base_frame sc, scene_id sc, map layer_outline (children sc))"

text \<open>
  \<open>r\<close> is the first cell of maximum area in \<open>ys\<close>: no cell has a larger area, and every
  cell before it has a strictly smaller one.
\<close>

definition first_max_area :: "Cell list \<Rightarrow> Cell \<Rightarrow> bool" where
  "first_max_area ys r =
     (\<exists>k < length ys. r = ys ! k \<and>
        (\<forall>j < length ys. cell_area (ys ! j) \<le> cell_area r) \<and>
        (\<forall>j < k. cell_area (ys ! j) < cell_area r))"

section \<open>Example configurations\<close>

text \<open>
  An entry with metadata \<open>{type: ty, rgba: [0, 255, 0, 255]}\<close> and properties
  \<open>{ly, dt, zh, th, top, bot}\<close> (the optional ones possibly absent), and the Layer that
  the first loop builds from it.
\<close>

definition example_entry ::
  "string \<Rightarrow> int \<Rightarrow> int \<Rightarrow> number option \<Rightarrow> number option \<Rightarrow> string option \<Rightarrow> string option \<Rightarrow>
   yaml_layer node" where
  "example_entry ty l d z t tp bt =
     Mapping \<lparr> y_metadata = Some (Mapping \<lparr> y_type = Some ty, y_keys = None,
                                              y_rgba = Some [0, 255, 0, 255], y_text = None \<rparr>),
               y_properties = Some (Mapping \<lparr> y_ly = Some l, y_dt = Some d, y_zh = z, y_th = t,
                                                y_top = tp, y_bot = bt \<rparr>) \<rparr>"

definition example_layer ::
  "string \<Rightarrow> string \<Rightarrow> int \<Rightarrow> int \<Rightarrow> number option \<Rightarrow> number option \<Rightarrow> string option \<Rightarrow> string option \<Rightarrow>
   Layer" where
  "example_layer n ty l d z t tp bt =
     \<lparr> name = n, lydt = (l, d),
       metadata = Some \<lparr> type = ty, keys = None,
                          material = \<lparr> text_field = None, rgba = Some [0, 255, 0, 255] \<rparr> \<rparr>,
       properties = Some \<lparr> ly = l, dt = d, top_name = tp, bot_name = bt, zh = z, th = t,
                            mw = None, sqrres = None, dc_avgcd = None, ac_rmscd = None,
                            sqrcap = None \<rparr> \<rparr>"

text \<open>Two routing layers and the via between them, with int heights.\<close>

definition three_layer_file :: layerstack_file where
  "three_layer_file =
     \<lparr> file_exists = True, ext = ''.yml'',
       loaded = Some
         [(''met1'', example_entry ''routing'' 1 0 (Some (PyInt 0)) (Some (PyInt 1)) None None),
          (''via1'', example_entry ''cut'' 2 0 None None (Some ''met2'') (Some ''met1'')),
          (''met2'', example_entry ''routing'' 3 0 (Some (PyInt 3)) (Some (PyInt 1)) None None)] \<rparr>"

text \<open>A cut layer with declared heights that names itself as its \<open>top\<close>.\<close>

definition self_top_file :: layerstack_file where
  "self_top_file =
     \<lparr> file_exists = True, ext = ''.yml'',
       loaded = Some
         [(''met1'', example_entry ''routing'' 1 0 (Some (PyInt 0)) (Some (PyInt 1)) None None),
          (''via1'', example_entry ''cut'' 2 0 (Some (PyInt 5)) (Some (PyInt 2))
                       (Some ''via1'') (Some ''met1''))] \<rparr>"

text \<open>
  Two routing layers and the via between them, with float heights: \<open>met1\<close> has
  \<^verbatim>\<open>zh: 0.0\<close> and \<^verbatim>\<open>th: 0.03\<close>, \<open>met2\<close> has \<^verbatim>\<open>zh: 0.3\<close> and \<^verbatim>\<open>th: 0.1\<close>.
\<close>

definition float_file :: layerstack_file where
  "float_file =
     \<lparr> file_exists = True, ext = ''.yml'',
       loaded = Some
         [(''met1'', example_entry ''routing'' 1 0 (Some (float_literal 0))
                       (Some (float_literal (3 / 100))) None None),
          (''via1'', example_entry ''cut'' 2 0 None None (Some ''met2'') (Some ''met1'')),
          (''met2'', example_entry ''routing'' 3 0 (Some (float_literal (3 / 10)))
                       (Some (float_literal (1 / 10))) None None)] \<rparr>"

text \<open>The stacks that the loader returns for the three files above.\<close>

definition three_layer_stack :: LayerStack where
  "three_layer_stack =
     \<lparr> layers =
         [((1, 0), example_layer ''met1'' ''routing'' 1 0 (Some (PyInt 0)) (Some (PyInt 1)) None None),
          ((2, 0), example_layer ''via1'' ''cut'' 2 0 (Some (PyInt 1)) (Some (PyInt 2))
                     (Some ''met2'') (Some ''met1'')),
          ((3, 0), example_layer ''met2'' ''routing'' 3 0 (Some (PyInt 3)) (Some (PyInt 1)) None None)] \<rparr>"

definition self_top_stack :: LayerStack where
  "self_top_stack =
     \<lparr> layers =
         [((1, 0), example_layer ''met1'' ''routing'' 1 0 (Some (PyInt 0)) (Some (PyInt 1)) None None),
          ((2, 0), example_layer ''via1'' ''cut'' 2 0 (Some (PyInt 1)) (Some (PyInt 4))
                     (Some ''via1'') (Some ''met1''))] \<rparr>"

definition float_stack :: LayerStack where
  "float_stack =
     \<lparr> layers =
         [((1, 0), example_layer ''met1'' ''routing'' 1 0 (Some (float_literal 0))
                     (Some (float_literal (3 / 100))) None None),
          ((2, 0), example_layer ''via1'' ''cut'' 2 0 (Some (float_literal (3 / 100)))
                     (Some (float_literal (27 / 100))) (Some ''met2'') (Some ''met1'')),
          ((3, 0), example_layer ''met2'' ''routing'' 3 0 (Some (float_literal (3 / 10)))
                     (Some (float_literal (1 / 10))) None None)] \<rparr>"

text \<open>An entry without properties.\<close>

definition incomplete_file :: layerstack_file where
  "incomplete_file =
     \<lparr> file_exists = True, ext = ''.yaml'',
       loaded = Some
         [(''met1'', Mapping \<lparr> y_metadata = Some (Mapping \<lparr> y_type = Some ''routing'',
                                  y_keys = None, y_rgba = None, y_text = None \<rparr>),
                               y_properties = None \<rparr>)] \<rparr>"

text \<open>An entry without a body (\<^verbatim>\<open>met1:\<close> and nothing else), which YAML reads as null.\<close>

definition null_entry_file :: layerstack_file where
  "null_entry_file =
     \<lparr> file_exists = True, ext = ''.yaml'', loaded = Some [(''met1'', NotMapping)] \<rparr>"

section \<open>Example layouts\<close>

text \<open>
  \<^verbatim>\<open>Path(p).suffix\<close> for a path without a trailing slash, as pathlib computes it up to
  Python 3.13: with \<open>name\<close> the part after the last slash and \<open>i\<close> the position of its
  last dot, \<open>name[i:]\<close> when \<open>0 < i < len(name) - 1\<close> and the empty string otherwise.
  Used to run the examples.
\<close>

definition posix_suffix :: "string \<Rightarrow> string" where
  "posix_suffix p =
     (let name = rev (takeWhile (\<lambda>c. c \<noteq> CHR ''/'') (rev p));
          after_dot = rev (takeWhile (\<lambda>c. c \<noteq> CHR ''.'') (rev name))
      in if CHR ''.'' \<in> set name \<and> after_dot \<noteq> [] \<and> length after_dot + 1 < length name
         then CHR ''.'' # after_dot else [])"

text \<open>
  A layout with a small cell, whose one unit square lies on a layer that the stack does
  not list, and a larger cell that has one square on layer (2, 0); a stack with that one
  layer; an extrusion that returns no information.
\<close>

definition small_cell :: Cell where
  "small_cell =
     \<lparr> cell_name = ''pad'', cell_area = 1,
       get_polygons = (\<lambda>layer datatype.
         if layer = 9 \<and> datatype = 0 then [[(0, 0), (0, 1), (1, 1), (1, 0)]] else []) \<rparr>"

definition large_cell :: Cell where
  "large_cell =
     \<lparr> cell_name = ''crossed_metal'', cell_area = 4,
       get_polygons = (\<lambda>layer datatype.
         if layer = 2 \<and> datatype = 0 then [[(0, 0), (0, 2), (2, 2), (2, 0)]] else []) \<rparr>"

definition one_layer_stack :: LayerStack where
  "one_layer_stack =
     \<lparr> layers = [((2, 0), example_layer ''met1'' ''routing'' 2 0 (Some (PyInt 0)) (Some (PyInt 1))
                              None None)] \<rparr>"

definition unit_extrude :: "point list \<Rightarrow> point list \<Rightarrow> number \<Rightarrow> number \<Rightarrow> error + unit" where
  "unit_extrude sh ho height zbot = Inr ()"

text \<open>An extrusion that returns the base height and the thickness it was given.\<close>

definition span_extrude ::
  "point list \<Rightarrow> point list \<Rightarrow> number \<Rightarrow> number \<Rightarrow> error + number \<times> number" where
  "span_extrude sh ho height zbot = Inr (zbot, height)"

text \<open>
  The result of rendering \<open>large_cell\<close> with \<open>one_layer_stack\<close> and no colour map, when
  the extrusion of the square returns \<open>g\<close> and the output path is \<open>out\<close>.
\<close>

definition large_cell_result :: "'g \<Rightarrow> string option \<Rightarrow> 'g render_result" where
  "large_cell_result g out =
     \<lparr> canvas =
         \<lparr> base_frame = ''crossed_metal'', scene_id = ''crossed_metal'',
           children =
             [(''2,0'', ''2,0'',
               \<lparr> layer_base_frame = ''crossed_metal'', layer_id = ''2,0,met1'',
                 nodes = [\<lparr> node_name = ''2,0,0'', node_id = ''2,0,0'',
                            face_colors = Some [0, 255, 0, 255], geometry = g \<rparr>] \<rparr>)] \<rparr>,
       exported = out, warnings_emitted = [] \<rparr>"

section \<open>Properties of the polygon classifier\<close>

subsection \<open>Edges and turns\<close>

lemma length_edges: "length (edges vs) = length vs - 1"
  by (simp add: edges_def)

lemma nth_edges:
  assumes "i < length vs - 1"
  shows "edges vs ! i = (vs ! i, vs ! Suc i)"
proof -
  from assms have a: "i < length (butlast vs)" and b: "i < length (tl vs)" by simp_all
  from a have "butlast vs ! i = vs ! i" by (simp add: nth_butlast)
  moreover from b have "tl vs ! i = vs ! Suc i" by (simp add: nth_tl)
  ultimately show ?thesis using a b by (simp add: edges_def)
qed

lemma length_edge_pairs: "length (edge_pairs vs) = length vs - 2"
  by (simp add: edge_pairs_def Let_def length_edges)

lemma nth_edge_pairs:
  assumes "i < length vs - 2"
  shows "edge_pairs vs ! i = (edges vs ! i, edges vs ! Suc i)"
proof -
  let ?es = "edges vs"
  from assms have a: "i < length (butlast ?es)" and b: "i < length (tl ?es)"
    by (simp_all add: length_edges)
  from a have "butlast ?es ! i = ?es ! i" by (simp add: nth_butlast)
  moreover from b have "tl ?es ! i = ?es ! Suc i" by (simp add: nth_tl)
  ultimately show ?thesis using a b by (simp add: edge_pairs_def Let_def)
qed

lemma closing_edge_absent:
  assumes "distinct vs"
  shows "(last vs, hd vs) \<notin> set (edges vs)"
proof
  assume "(last vs, hd vs) \<in> set (edges vs)"
  then obtain i where i: "i < length (edges vs)" and e: "edges vs ! i = (last vs, hd vs)"
    by (auto simp: in_set_conv_nth)
  from i have il: "i < length vs - 1" by (simp add: length_edges)
  then have ne: "vs \<noteq> []" by auto
  from il e have "vs ! i = last vs" by (simp add: nth_edges)
  with ne have "vs ! i = vs ! (length vs - 1)" by (simp add: last_conv_nth)
  with assms il have "i = length vs - 1" by (simp add: nth_eq_iff_index_eq)
  with il show False by simp
qed

lemma is_counter_clockwise_cross:
  "is_counter_clockwise (p1, p2) (q1, q2) \<longleftrightarrow>
     (fst p2 - fst p1) * (snd q2 - snd q1) - (snd p2 - snd p1) * (fst q2 - fst q1) \<le> 0"
  by (simp add: is_counter_clockwise_def vec_def cross_def)

lemma fromkeys_Nil: "fromkeys [] = []"
  by (simp add: fromkeys_def)

lemma holes_all_ccw:
  assumes "\<forall>ep \<in> set (edge_pairs vs). is_counter_clockwise (fst ep) (snd ep)"
  shows "holes vs = []"
proof -
  from assms have "filter (\<lambda>ep. \<not> is_counter_clockwise (fst ep) (snd ep)) (edge_pairs vs) = []"
    by (simp add: filter_empty_conv)
  then show ?thesis
    by (simp add: holes_def extend_pairs_def edge_vertices_def fromkeys_Nil)
qed


subsection \<open>C2: the edges of a ring and the classification of its turns\<close>

text \<open>
  Claim C2. For a ring of \<open>n\<close> vertices the classifier builds exactly the \<open>n - 1\<close> edges
  \<open>(v\<^sub>i, v\<^sub>i\<^sub>+\<^sub>1)\<close> for \<open>i = 0, \<dots>, n - 2\<close>; the edge from the last vertex back to the first is
  not among them (stated for rings without repeated vertices, where that edge cannot
  coincide with another one); the consecutive pairs of edges are the \<open>n - 2\<close> pairs of
  neighbouring edges; and a pair is classified counter-clockwise exactly when the cross
  product of the two direction vectors is at most 0, and clockwise otherwise.
\<close>

theorem classifier_edges_and_turns:
  "length (edges vs) = length vs - 1 \<and>
   (\<forall>i < length vs - 1. edges vs ! i = (vs ! i, vs ! Suc i)) \<and>
   (distinct vs \<longrightarrow> (last vs, hd vs) \<notin> set (edges vs)) \<and>
   length (edge_pairs vs) = length vs - 2 \<and>
   (\<forall>i < length vs - 2.
      edge_pairs vs ! i = ((vs ! i, vs ! Suc i), (vs ! Suc i, vs ! Suc (Suc i)))) \<and>
   (\<forall>p1 p2 q1 q2.
      is_counter_clockwise (p1, p2) (q1, q2) \<longleftrightarrow>
        (fst p2 - fst p1) * (snd q2 - snd q1) - (snd p2 - snd p1) * (fst q2 - fst q1) \<le> 0)"
proof -
  have pairs: "edge_pairs vs ! i = ((vs ! i, vs ! Suc i), (vs ! Suc i, vs ! Suc (Suc i)))"
    if "i < length vs - 2" for i
  proof -
    from that have "i < length vs - 1" and "Suc i < length vs - 1" by simp_all
    then show ?thesis using that by (simp add: nth_edge_pairs nth_edges)
  qed
  show ?thesis
    using length_edges nth_edges closing_edge_absent length_edge_pairs pairs
      is_counter_clockwise_cross
    by blast
qed

theorem classifier_edges_and_turns_witness:
  "(1::nat) < length ([(0,0),(0,1),(1,1),(1,0)] :: point list) - 1 \<and>
   edges [(0,0),(0,1),(1,1),(1,0)] ! 1 = ((0,1),(1,1)) \<and>
   distinct ([(0,0),(0,1),(1,1),(1,0)] :: point list) \<and>
   ((1,0),(0,0)) \<notin> set (edges [(0,0),(0,1),(1,1),(1,0)]) \<and>
   (0::nat) < length ([(0,0),(0,1),(1,1),(1,0)] :: point list) - 2 \<and>
   edge_pairs [(0,0),(0,1),(1,1),(1,0)] ! 0 = (((0,0),(0,1)),((0,1),(1,1))) \<and>
   is_counter_clockwise ((0,0),(0,1)) ((0,1),(1,1)) \<and>
   \<not> is_counter_clockwise ((0,0),(1,0)) ((1,0),(1,1))"
  using classifier_edges_and_turns [of "[(0,0),(0,1),(1,1),(1,0)]"]
  by (simp add: is_counter_clockwise_def vec_def cross_def)

subsection \<open>C1: rings whose turns are all classified counter-clockwise\<close>

text \<open>
  Claim C1, as stated, fails on the square \<open>[(0,0),(1,0),(1,1),(0,1)]\<close>: both of its turns
  have cross product \<open>1 > 0\<close>, so the classifier puts them with the clockwise turns; the
  shell comes out empty and the four corners end up in the holes.
\<close>

theorem square_shell_counterexample:
  "shell [(0,0),(1,0),(1,1),(0,1)] = [] \<and>
   holes [(0,0),(1,0),(1,1),(0,1)] = [(1,1),(0,1),(1,0),(0,0)] \<and>
   \<not> (set (shell [(0,0),(1,0),(1,1),(0,1)]) = {(0,0),(1,0),(1,1),(0,1)} \<and>
      holes [(0,0),(1,0),(1,1),(0,1)] = [])"
  by (simp add: shell_def holes_def edge_pairs_def edges_def extend_pairs_def
      is_counter_clockwise_def vec_def cross_def fromkeys_def edge_vertices_def)

text \<open>
  Claim C1, amended. For every ring all of whose consecutive edge pairs are classified
  counter-clockwise (cross product at most 0), the hole sequence is empty; in particular
  for the square traversed as \<open>[(0,0),(0,1),(1,1),(1,0)]\<close> the shell is the four corners, in
  the order of the ring, and the hole sequence is empty.
\<close>

theorem holes_empty_when_all_counter_clockwise:
  "((\<forall>ep \<in> set (edge_pairs vs). is_counter_clockwise (fst ep) (snd ep)) \<longrightarrow> holes vs = []) \<and>
   shell [(0,0),(0,1),(1,1),(1,0)] = [(0,0),(0,1),(1,1),(1,0)] \<and>
   holes [(0,0),(0,1),(1,1),(1,0)] = []"
proof -
  have "shell [(0,0),(0,1),(1,1),(1,0)] = [(0,0),(0,1),(1,1),(1,0)]"
    by (simp add: shell_def edge_pairs_def edges_def extend_pairs_def
        is_counter_clockwise_def vec_def cross_def fromkeys_def edge_vertices_def)
  moreover have "holes [(0,0),(0,1),(1,1),(1,0)] = []"
    by (simp add: holes_def edge_pairs_def edges_def extend_pairs_def
        is_counter_clockwise_def vec_def cross_def fromkeys_def edge_vertices_def)
  ultimately show ?thesis using holes_all_ccw by blast
qed

theorem holes_empty_when_all_counter_clockwise_witness:
  "list_all (\<lambda>ep. is_counter_clockwise (fst ep) (snd ep))
     (edge_pairs [(0,0),(0,2),(3,2),(3,0)]) \<and>
   holes [(0,0),(0,2),(3,2),(3,0)] = []"
proof -
  have h: "list_all (\<lambda>ep. is_counter_clockwise (fst ep) (snd ep))
     (edge_pairs [(0,0),(0,2),(3,2),(3,0)])"
    by (simp add: edge_pairs_def edges_def is_counter_clockwise_def vec_def cross_def)
  then have "\<forall>ep \<in> set (edge_pairs [(0,0),(0,2),(3,2),(3,0)]).
      is_counter_clockwise (fst ep) (snd ep)"
    by (simp only: list_all_iff)
  with holes_empty_when_all_counter_clockwise [of "[(0,0),(0,2),(3,2),(3,0)]"] h
  show ?thesis by blast
qed

section \<open>Properties of the layer stack\<close>

subsection \<open>The keys of the loaded stack are distinct\<close>

lemma dict_keys_setitem:
  "set (dict_keys (setitem d k v)) = insert k (set (dict_keys d))"
proof (induction d)
  case Nil
  show ?case by (simp add: dict_keys_def)
next
  case (Cons p d)
  obtain k' v' where p: "p = (k', v')" by (cases p)
  from Cons.IH have ih: "fst ` set (setitem d k v) = insert k (fst ` set d)"
    by (simp add: dict_keys_def)
  show ?case
  proof (cases "k' = k")
    case True
    with p show ?thesis by (simp add: dict_keys_def)
  next
    case False
    with p ih show ?thesis by (simp add: dict_keys_def insert_commute)
  qed
qed

lemma distinct_setitem:
  "distinct (dict_keys d) \<Longrightarrow> distinct (dict_keys (setitem d k v))"
proof (induction d)
  case Nil
  then show ?case by (simp add: dict_keys_def)
next
  case (Cons p d)
  obtain k' v' where p: "p = (k', v')" by (cases p)
  from Cons.prems p have d: "distinct (dict_keys d)" and n: "k' \<notin> set (dict_keys d)"
    by (simp_all add: dict_keys_def)
  show ?case
  proof (cases "k' = k")
    case True
    with Cons.prems p show ?thesis by (simp add: dict_keys_def)
  next
    case False
    from Cons.IH [OF d] have "distinct (dict_keys (setitem d k v))" .
    moreover from n False have "k' \<notin> set (dict_keys (setitem d k v))"
      by (simp add: dict_keys_setitem)
    ultimately show ?thesis using False p by (simp add: dict_keys_def)
  qed
qed

lemma build_layers_distinct:
  "build_layers doc acc = Inr d \<Longrightarrow> distinct (dict_keys acc) \<Longrightarrow> distinct (dict_keys d)"
proof (induction doc arbitrary: acc)
  case Nil
  then show ?case by simp
next
  case (Cons entry doc)
  obtain k layer where entry: "entry = (k, layer)" by (cases entry)
  from Cons.prems(1) entry obtain l where
    l: "build_layers doc (setitem acc (lydt l) l) = Inr d"
    by (auto split: sum.splits)
  from Cons.prems(2) have "distinct (dict_keys (setitem acc (lydt l) l))"
    by (rule distinct_setitem)
  with l show ?case by (rule Cons.IH)
qed

subsection \<open>C9: lookup in a LayerStack\<close>

text \<open>
  Claim C9. Indexing a LayerStack never raises: it returns \<open>None\<close> for a key that is not
  in the dict, and the stored Layer for a key that is (the keys of a dict are distinct).
\<close>

theorem getitem_total:
  "(key \<notin> set (dict_keys (layers self)) \<longrightarrow> getitem self key = None) \<and>
   (distinct (dict_keys (layers self)) \<longrightarrow> (key, layer) \<in> set (layers self) \<longrightarrow>
      getitem self key = Some layer)"
  by (simp add: getitem_def dict_get_def dict_keys_def map_of_eq_None_iff)

theorem getitem_total_witness:
  "(1, 0) \<notin> set (dict_keys (layers \<lparr> layers = [((2, 0),
      \<lparr> name = ''met1'', lydt = (2, 0), metadata = None, properties = None \<rparr>)] \<rparr>)) \<and>
   getitem \<lparr> layers = [((2, 0),
      \<lparr> name = ''met1'', lydt = (2, 0), metadata = None, properties = None \<rparr>)] \<rparr> (1, 0) = None \<and>
   distinct (dict_keys (layers \<lparr> layers = [((2, 0),
      \<lparr> name = ''met1'', lydt = (2, 0), metadata = None, properties = None \<rparr>)] \<rparr>)) \<and>
   getitem \<lparr> layers = [((2, 0),
      \<lparr> name = ''met1'', lydt = (2, 0), metadata = None, properties = None \<rparr>)] \<rparr> (2, 0)
     = Some \<lparr> name = ''met1'', lydt = (2, 0), metadata = None, properties = None \<rparr>"
  using getitem_total [of "(1, 0)" "\<lparr> layers = [((2, 0),
      \<lparr> name = ''met1'', lydt = (2, 0), metadata = None, properties = None \<rparr>)] \<rparr>"]
    getitem_total [of "(2, 0)" "\<lparr> layers = [((2, 0),
      \<lparr> name = ''met1'', lydt = (2, 0), metadata = None, properties = None \<rparr>)] \<rparr>"
      "\<lparr> name = ''met1'', lydt = (2, 0), metadata = None, properties = None \<rparr>"]
  by (simp add: dict_keys_def)


subsection \<open>Evaluating the loader on the examples\<close>

lemmas loader_defs =
  load_layerstack_def LAYERSTACK_FILE_EXTENSIONS_def make_layer_def example_entry_def
  example_layer_def resolve_vias_def via_layers_def dict_values_def dict_keys_def
  layer_type_def resolve_via_def by_name_def truthy_def

lemma upt_small: "[0..<3] = [0, 1, 2]" "[0..<2] = [0, 1]"
  by (simp_all add: upt_rec)

subsection \<open>C6: entries that lack a required part\<close>

lemma make_layer_error:
  "make_layer k entry = Inl e \<Longrightarrow> is_configuration_error e \<or> e = AttributeError"
  by (auto simp: make_layer_def is_configuration_error_def
      split: node.splits option.splits if_splits prod.splits)

lemma make_layer_error_mappings:
  "made_of_mappings entry \<Longrightarrow> make_layer k entry = Inl e \<Longrightarrow> is_configuration_error e"
  by (auto simp: make_layer_def made_of_mappings_def is_configuration_error_def
      split: node.splits option.splits if_splits prod.splits)

lemma make_layer_lacks:
  "lacks_required entry \<Longrightarrow> \<exists>e. make_layer k entry = Inl e"
  by (auto simp: make_layer_def lacks_required_def
      split: node.splits option.splits if_splits prod.splits)

lemma build_layers_error:
  "build_layers doc acc = Inl e \<Longrightarrow> is_configuration_error e \<or> e = AttributeError"
proof (induction doc arbitrary: acc)
  case Nil
  then show ?case by simp
next
  case (Cons item doc)
  obtain k entry where item: "item = (k, entry)" by (cases item)
  show ?case
  proof (cases "make_layer k entry")
    case (Inl e')
    with Cons.prems item have "make_layer k entry = Inl e" by simp
    then show ?thesis by (rule make_layer_error)
  next
    case (Inr l)
    with Cons.prems item have "build_layers doc (setitem acc (lydt l) l) = Inl e" by simp
    then show ?thesis by (rule Cons.IH)
  qed
qed

lemma build_layers_error_mappings:
  "\<forall>x \<in> set doc. made_of_mappings (snd x) \<Longrightarrow> build_layers doc acc = Inl e \<Longrightarrow>
   is_configuration_error e"
proof (induction doc arbitrary: acc)
  case Nil
  then show ?case by simp
next
  case (Cons item doc)
  obtain k entry where item: "item = (k, entry)" by (cases item)
  from Cons.prems(1) item have m: "made_of_mappings entry"
    and rest: "\<forall>x \<in> set doc. made_of_mappings (snd x)" by simp_all
  show ?case
  proof (cases "make_layer k entry")
    case (Inl e')
    with Cons.prems(2) item have "make_layer k entry = Inl e" by simp
    with m show ?thesis by (rule make_layer_error_mappings)
  next
    case (Inr l)
    with Cons.prems(2) item have "build_layers doc (setitem acc (lydt l) l) = Inl e" by simp
    with rest show ?thesis by (rule Cons.IH)
  qed
qed

lemma build_layers_lacks:
  "(k, entry) \<in> set doc \<Longrightarrow> lacks_required entry \<Longrightarrow> \<exists>e. build_layers doc acc = Inl e"
proof (induction doc arbitrary: acc)
  case Nil
  then show ?case by simp
next
  case (Cons item doc)
  obtain k' entry' where item: "item = (k', entry')" by (cases item)
  show ?case
  proof (cases "make_layer k' entry'")
    case (Inl e')
    with item show ?thesis by simp
  next
    case (Inr l)
    with make_layer_lacks [of entry' k'] have "\<not> lacks_required entry'" by auto
    with Cons.prems item have "(k, entry) \<in> set doc" by auto
    from Cons.IH [OF this Cons.prems(2)] Inr item show ?thesis by simp
  qed
qed

text \<open>
  Claim C6, as stated, fails on an entry that is not a mapping: for \<^verbatim>\<open>met1:\<close> without a
  body the entry is null, it lacks metadata and properties, and \<^verbatim>\<open>layer.get("metadata")\<close>
  in line 83 raises AttributeError, which is none of the loader's configuration errors.
\<close>

theorem null_entry_counterexample:
  "loaded null_entry_file = Some [(''met1'', NotMapping)] \<and>
   lacks_required NotMapping \<and>
   load_layerstack null_entry_file = Inl AttributeError \<and>
   \<not> is_configuration_error AttributeError"
  by (simp add: null_entry_file_def lacks_required_def load_layerstack_def
      LAYERSTACK_FILE_EXTENSIONS_def make_layer_def is_configuration_error_def)

text \<open>
  Claim C6, amended. When some named entry of the configuration document lacks its
  metadata, the type in its metadata, its properties, or \<open>ly\<close> or \<open>dt\<close>,
  load_layerstack fails and returns no LayerStack. The failure is a configuration error
  (a failed assertion or a ValueError) or an AttributeError, and it is a configuration
  error whenever every entry of the document is a mapping whose metadata and properties,
  where present, are mappings.
\<close>

theorem load_layerstack_rejects_incomplete_layer:
  assumes "loaded fp = Some doc" and "(layerkey, entry) \<in> set doc" and "lacks_required entry"
  shows "\<exists>e. load_layerstack fp = Inl e \<and>
           (is_configuration_error e \<or> e = AttributeError) \<and>
           ((\<forall>x \<in> set doc. made_of_mappings (snd x)) \<longrightarrow> is_configuration_error e)"
proof -
  from assms(2) have ne: "doc \<noteq> []" by auto
  from build_layers_lacks [OF assms(2,3)] obtain e where e: "build_layers doc [] = Inl e" by blast
  then have a: "is_configuration_error e \<or> e = AttributeError" by (rule build_layers_error)
  have b: "is_configuration_error e" if "\<forall>x \<in> set doc. made_of_mappings (snd x)"
    using that e by (rule build_layers_error_mappings)
  show ?thesis
  proof (cases "file_exists fp \<and> ext fp \<in> set LAYERSTACK_FILE_EXTENSIONS")
    case True
    with assms(1) ne e have "load_layerstack fp = Inl e" by (simp add: load_layerstack_def)
    with a b show ?thesis by blast
  next
    case False
    then have "\<exists>m. load_layerstack fp = Inl (AssertionError m) \<or> load_layerstack fp = Inl (ValueError m)"
      by (auto simp: load_layerstack_def)
    then show ?thesis by (auto simp: is_configuration_error_def)
  qed
qed

theorem load_layerstack_rejects_incomplete_layer_witness:
  "loaded incomplete_file = Some
     [(''met1'', Mapping \<lparr> y_metadata = Some (Mapping \<lparr> y_type = Some ''routing'',
                              y_keys = None, y_rgba = None, y_text = None \<rparr>),
                           y_properties = None \<rparr>)] \<and>
   lacks_required (Mapping \<lparr> y_metadata = Some (Mapping \<lparr> y_type = Some ''routing'',
                              y_keys = None, y_rgba = None, y_text = None \<rparr>),
                           y_properties = None \<rparr>) \<and>
   made_of_mappings (Mapping \<lparr> y_metadata = Some (Mapping \<lparr> y_type = Some ''routing'',
                              y_keys = None, y_rgba = None, y_text = None \<rparr>),
                           y_properties = None \<rparr>) \<and>
   load_layerstack incomplete_file = Inl (AssertionError (LayerMissingProperties ''met1'')) \<and>
   is_configuration_error (AssertionError (LayerMissingProperties ''met1''))"
proof -
  let ?l = "Mapping \<lparr> y_metadata = Some (Mapping \<lparr> y_type = Some ''routing'',
                              y_keys = None, y_rgba = None, y_text = None \<rparr>),
                           y_properties = None \<rparr>"
  have a: "loaded incomplete_file = Some [(''met1'', ?l)]" by (simp add: incomplete_file_def)
  have b: "(''met1'', ?l) \<in> set [(''met1'', ?l)]" by simp
  have c: "lacks_required ?l" by (simp add: lacks_required_def)
  have m: "made_of_mappings ?l" by (simp add: made_of_mappings_def)
  have d: "load_layerstack incomplete_file = Inl (AssertionError (LayerMissingProperties ''met1''))"
    by (simp add: load_layerstack_def incomplete_file_def LAYERSTACK_FILE_EXTENSIONS_def
        make_layer_def)
  from load_layerstack_rejects_incomplete_layer [OF a b c] a c m d show ?thesis
    by (simp add: is_configuration_error_def)
qed

subsection \<open>The via pass: what it leaves unchanged\<close>

lemma resolve_via_result:
  assumes "resolve_via k ls i = Inr ls'"
  shows "\<exists>vp bl tl bp tp zb tb zt zv tv.
           properties (ls ! i) = Some vp \<and>
           by_name ls (bot_name vp) = Some bl \<and> by_name ls (top_name vp) = Some tl \<and>
           properties bl = Some bp \<and> properties tl = Some tp \<and>
           zh bp = Some zb \<and> th bp = Some tb \<and> zh tp = Some zt \<and>
           py_add zb tb = Inr zv \<and> py_sub zt zv = Inr tv \<and>
           ls' = ls[i := (ls ! i)\<lparr>properties := Some (vp\<lparr>zh := Some zv, th := Some tv\<rparr>)\<rparr>]"
  using assms
  by (auto simp: resolve_via_def Let_def split: option.splits if_splits prod.splits sum.splits)

lemma resolve_via_frame:
  assumes "resolve_via k ls i = Inr ls'"
  shows "length ls' = length ls"
    and "j \<noteq> i \<Longrightarrow> ls' ! j = ls ! j"
    and "erase_zh_th (ls' ! j) = erase_zh_th (ls ! j)"
proof -
  from resolve_via_result [OF assms] obtain vp z t where
    vp: "properties (ls ! i) = Some vp" and
    ls': "ls' = ls[i := (ls ! i)\<lparr>properties := Some (vp\<lparr>zh := z, th := t\<rparr>)\<rparr>]"
    by blast
  show "length ls' = length ls" by (simp add: ls')
  show "ls' ! j = ls ! j" if "j \<noteq> i" using that by (simp add: ls')
  show "erase_zh_th (ls' ! j) = erase_zh_th (ls ! j)"
  proof (cases "j = i \<and> i < length ls")
    case True
    with vp show ?thesis by (simp add: ls' erase_zh_th_def)
  next
    case False
    then show ?thesis by (cases "i < length ls") (auto simp: ls' list_update_beyond)
  qed
qed

lemma resolve_loop_frame:
  assumes "resolve_loop k vias ls = Inr ls'"
  shows "length ls' = length ls \<and>
         (\<forall>j. j \<notin> set vias \<longrightarrow> ls' ! j = ls ! j) \<and>
         (\<forall>j. erase_zh_th (ls' ! j) = erase_zh_th (ls ! j))"
  using assms
proof (induction vias arbitrary: ls)
  case Nil
  then show ?case by simp
next
  case (Cons i vias)
  from Cons.prems obtain ls1 where
    step: "resolve_via k ls i = Inr ls1" and rest: "resolve_loop k vias ls1 = Inr ls'"
    by (auto split: sum.splits)
  from Cons.IH [OF rest] resolve_via_frame [OF step]
  show ?case by auto
qed

lemma erase_zh_th_fields:
  assumes "erase_zh_th l' = erase_zh_th l"
  shows "name l' = name l" and "lydt l' = lydt l" and "metadata l' = metadata l"
    and "layer_type l' = layer_type l"
    and "map_option top_name (properties l') = map_option top_name (properties l)"
    and "map_option bot_name (properties l') = map_option bot_name (properties l)"
proof -
  have n: "name (erase_zh_th x) = name x" "lydt (erase_zh_th x) = lydt x"
    "metadata (erase_zh_th x) = metadata x" 
    "map_option top_name (properties (erase_zh_th x)) = map_option top_name (properties x)"
    "map_option bot_name (properties (erase_zh_th x)) = map_option bot_name (properties x)"
    for x
    by (simp_all add: erase_zh_th_def option.map_comp comp_def)
  from assms n [of l'] n [of l] show "name l' = name l" by simp
  from assms n [of l'] n [of l] show "lydt l' = lydt l" by simp
  from assms n [of l'] n [of l] show m: "metadata l' = metadata l" by simp
  from m show "layer_type l' = layer_type l" by (simp add: layer_type_def)
  from assms n [of l'] n [of l] show "map_option top_name (properties l') = map_option top_name (properties l)" by simp
  from assms n [of l'] n [of l] show "map_option bot_name (properties l') = map_option bot_name (properties l)" by simp
qed

subsection \<open>The via pass: what it computes\<close>

lemma by_name_first:
  "by_name ls n = Some b \<longleftrightarrow> (\<exists>j. first_named ls n j \<and> b = ls ! j)"
  unfolding by_name_def first_named_def find_Some_iff by blast

lemma first_named_frame:
  assumes len: "length ls' = length ls"
    and er: "\<forall>j. erase_zh_th (ls' ! j) = erase_zh_th (ls ! j)"
    and f: "first_named ls n j"
  shows "first_named ls' n j"
proof -
  have nm: "name (ls' ! m) = name (ls ! m)" for m
    using er erase_zh_th_fields(1) by blast
  from f show ?thesis by (simp add: first_named_def len nm)
qed

lemma settled_position:
  assumes f: "first_named ls n j" and s: "settled ls i (ls ! j)"
  shows "layer_type (ls ! j) \<noteq> Some ''cut'' \<or> j < i"
proof (cases "layer_type (ls ! j) \<noteq> Some ''cut''")
  case True
  then show ?thesis by simp
next
  case False
  with s have "ls ! j \<in> set (take i ls)" by (simp add: settled_def)
  then obtain m where m: "m < length (take i ls)" "take i ls ! m = ls ! j"
    by (auto simp: in_set_conv_nth)
  then have mi: "m < i" and eq: "ls ! m = ls ! j" by simp_all
  from f have "Some (name (ls ! j)) = n" and first: "\<forall>k < j. Some (name (ls ! k)) \<noteq> n"
    by (simp_all add: first_named_def)
  with eq have "Some (name (ls ! m)) = n" by simp
  with first have "\<not> m < j" by blast
  with mi show ?thesis by simp
qed

lemma resolve_via_ok:
  assumes step: "resolve_via k ls i = Inr ls1"
    and i: "i < length ls" and cut: "layer_type (ls ! i) = Some ''cut''"
  shows "via_ok ls1 i"
proof -
  from resolve_via_result [OF step] obtain vp bl tl bp tp zb tb zt zv tv where
    vp: "properties (ls ! i) = Some vp" and
    bl: "by_name ls (bot_name vp) = Some bl" and tl: "by_name ls (top_name vp) = Some tl" and
    bp: "properties bl = Some bp" and tp: "properties tl = Some tp" and
    z: "zh bp = Some zb" "th bp = Some tb" "zh tp = Some zt" and
    a: "py_add zb tb = Inr zv" "py_sub zt zv = Inr tv" and
    ls1: "ls1 = ls[i := (ls ! i)\<lparr>properties := Some (vp\<lparr>zh := Some zv, th := Some tv\<rparr>)\<rparr>]"
    by blast
  let ?vp = "vp\<lparr>zh := Some zv, th := Some tv\<rparr>"
  note fr = resolve_via_frame [OF step]
  have er: "\<forall>j. erase_zh_th (ls1 ! j) = erase_zh_th (ls ! j)" using fr(3) by blast
  have pi: "properties (ls1 ! i) = Some ?vp" using i by (simp add: ls1)
  from bl obtain jb where jb: "first_named ls (bot_name vp) jb" "bl = ls ! jb"
    unfolding by_name_first by blast
  from tl obtain jt where jt: "first_named ls (top_name vp) jt" "tl = ls ! jt"
    unfolding by_name_first by blast
  have fb: "first_named ls1 (bot_name ?vp) jb"
    using first_named_frame [OF fr(1) er jb(1)] by simp
  have ft: "first_named ls1 (top_name ?vp) jt"
    using first_named_frame [OF fr(1) er jt(1)] by simp
  have ty: "layer_type (ls1 ! j) = layer_type (ls ! j)" for j
    using er erase_zh_th_fields(4) by blast
  have zs: "zh_is_sum (ls1 ! jb) ?vp" if "layer_type (ls1 ! jb) \<noteq> Some ''cut'' \<or> jb < i"
  proof -
    from that cut ty have "jb \<noteq> i" by auto
    then have "ls1 ! jb = bl" using fr(2) jb(2) by simp
    with bp z a show ?thesis by (simp add: zh_is_sum_def)
  qed
  have ts: "th_is_difference (ls1 ! jt) ?vp" if "layer_type (ls1 ! jt) \<noteq> Some ''cut'' \<or> jt < i"
  proof -
    from that cut ty have "jt \<noteq> i" by auto
    then have "ls1 ! jt = tl" using fr(2) jt(2) by simp
    with tp z a show ?thesis by (simp add: th_is_difference_def)
  qed
  have "properties (ls1 ! i) = Some ?vp \<and>
        first_named ls1 (bot_name ?vp) jb \<and> first_named ls1 (top_name ?vp) jt \<and>
        (layer_type (ls1 ! jb) \<noteq> Some ''cut'' \<or> jb < i \<longrightarrow> zh_is_sum (ls1 ! jb) ?vp) \<and>
        (layer_type (ls1 ! jt) \<noteq> Some ''cut'' \<or> jt < i \<longrightarrow> th_is_difference (ls1 ! jt) ?vp)"
    using pi fb ft zs ts by blast
  then show ?thesis
    unfolding via_ok_def by blast
qed

lemma via_ok_transfer:
  assumes len: "length ls' = length ls1"
    and er: "\<forall>j. erase_zh_th (ls' ! j) = erase_zh_th (ls1 ! j)"
    and same: "\<forall>j. j \<notin> set vias \<longrightarrow> ls' ! j = ls1 ! j"
    and cuts: "\<forall>j \<in> set vias. layer_type (ls1 ! j) = Some ''cut'' \<and> i < j"
    and ok: "via_ok ls1 i"
  shows "via_ok ls' i"
proof -
  from ok obtain vp jb jt where
    vp: "properties (ls1 ! i) = Some vp" and
    fb: "first_named ls1 (bot_name vp) jb" and ft: "first_named ls1 (top_name vp) jt" and
    zs: "layer_type (ls1 ! jb) \<noteq> Some ''cut'' \<or> jb < i \<Longrightarrow> zh_is_sum (ls1 ! jb) vp" and
    ts: "layer_type (ls1 ! jt) \<noteq> Some ''cut'' \<or> jt < i \<Longrightarrow> th_is_difference (ls1 ! jt) vp"
    unfolding via_ok_def by blast
  from cuts have "i \<notin> set vias" by auto
  with same have ii: "ls' ! i = ls1 ! i" by simp
  have ty: "layer_type (ls' ! j) = layer_type (ls1 ! j)" for j
    using er erase_zh_th_fields(4) by blast
  have stay: "ls' ! j = ls1 ! j" if "layer_type (ls' ! j) \<noteq> Some ''cut'' \<or> j < i" for j
  proof -
    from that ty cuts have "j \<notin> set vias" by force
    with same show ?thesis by simp
  qed
  have zs': "zh_is_sum (ls' ! jb) vp" if h: "layer_type (ls' ! jb) \<noteq> Some ''cut'' \<or> jb < i"
  proof -
    from h ty have "layer_type (ls1 ! jb) \<noteq> Some ''cut'' \<or> jb < i" by simp
    then have "zh_is_sum (ls1 ! jb) vp" by (rule zs)
    with stay [OF h] show ?thesis by simp
  qed
  have ts': "th_is_difference (ls' ! jt) vp" if h: "layer_type (ls' ! jt) \<noteq> Some ''cut'' \<or> jt < i"
  proof -
    from h ty have "layer_type (ls1 ! jt) \<noteq> Some ''cut'' \<or> jt < i" by simp
    then have "th_is_difference (ls1 ! jt) vp" by (rule ts)
    with stay [OF h] show ?thesis by simp
  qed
  have "properties (ls' ! i) = Some vp \<and>
        first_named ls' (bot_name vp) jb \<and> first_named ls' (top_name vp) jt \<and>
        (layer_type (ls' ! jb) \<noteq> Some ''cut'' \<or> jb < i \<longrightarrow> zh_is_sum (ls' ! jb) vp) \<and>
        (layer_type (ls' ! jt) \<noteq> Some ''cut'' \<or> jt < i \<longrightarrow> th_is_difference (ls' ! jt) vp)"
    using vp ii first_named_frame [OF len er fb] first_named_frame [OF len er ft] zs' ts'
    by simp
  then show ?thesis
    unfolding via_ok_def by blast
qed

lemma resolve_loop_ok:
  assumes "resolve_loop k vias ls = Inr ls'" and "sorted_wrt (<) vias"
    and "\<forall>i \<in> set vias. i < length ls \<and> layer_type (ls ! i) = Some ''cut''"
  shows "\<forall>i \<in> set vias. via_ok ls' i"
  using assms
proof (induction vias arbitrary: ls)
  case Nil
  then show ?case by simp
next
  case (Cons i vias)
  from Cons.prems(1) obtain ls1 where
    step: "resolve_via k ls i = Inr ls1" and rest: "resolve_loop k vias ls1 = Inr ls'"
    by (auto split: sum.splits)
  note fr = resolve_via_frame [OF step]
  have ty: "layer_type (ls1 ! j) = layer_type (ls ! j)" for j
    using fr(3) erase_zh_th_fields(4) by blast
  from Cons.prems(3) have cuts1: "\<forall>j \<in> set vias. j < length ls1 \<and> layer_type (ls1 ! j) = Some ''cut''"
    by (simp add: fr(1) ty)
  from Cons.prems(2) have d: "sorted_wrt (<) vias" and later: "\<forall>j \<in> set vias. i < j" by simp_all
  from Cons.IH [OF rest d cuts1] have ih: "\<forall>j \<in> set vias. via_ok ls' j" .
  from Cons.prems(3) have i: "i < length ls" and ci: "layer_type (ls ! i) = Some ''cut''"
    by simp_all
  have ok1: "via_ok ls1 i" by (rule resolve_via_ok [OF step i ci])
  from resolve_loop_frame [OF rest] have
    len: "length ls' = length ls1" and
    same: "\<forall>j. j \<notin> set vias \<longrightarrow> ls' ! j = ls1 ! j" and
    er: "\<forall>j. erase_zh_th (ls' ! j) = erase_zh_th (ls1 ! j)"
    by blast+
  from cuts1 later have c1: "\<forall>j \<in> set vias. layer_type (ls1 ! j) = Some ''cut'' \<and> i < j" by blast
  have "via_ok ls' i" by (rule via_ok_transfer [OF len er same c1 ok1])
  with ih show ?case by simp
qed

lemma via_resolved_ints:
  assumes "properties via = Some vp"
    and "by_name ls (bot_name vp) = Some bot_layer"
    and "by_name ls (top_name vp) = Some top_layer"
    and "zh_is_sum bot_layer vp" and "th_is_difference top_layer vp"
    and "int_heights bot_layer top_layer"
  shows "via_resolved ls via"
  using assms
  by (auto simp: via_resolved_def zh_is_sum_def th_is_difference_def int_heights_def
      py_add_def py_sub_def py_eq_def split: option.splits number.splits)

lemma via_layers_result:
  assumes "via_layers ls = Inr vias"
  shows "vias = filter (\<lambda>i. layer_type (ls ! i) = Some ''cut'') [0..<length ls]"
  using assms by (simp add: via_layers_def split: if_splits)

lemma resolve_vias_result:
  assumes "resolve_vias k d = Inr d'"
  shows "\<exists>ls'. resolve_loop k (filter (\<lambda>i. layer_type (dict_values d ! i) = Some ''cut'')
                   [0..<length d]) (dict_values d) = Inr ls' \<and>
               length ls' = length d \<and> dict_keys d' = dict_keys d \<and> dict_values d' = ls'"
proof -
  from assms obtain vias ls' where
    v: "via_layers (dict_values d) = Inr vias" and
    l: "resolve_loop k vias (dict_values d) = Inr ls'" and
    d': "d' = zip (dict_keys d) ls'"
    by (auto simp: resolve_vias_def split: sum.splits)
  from resolve_loop_frame [OF l] have len: "length ls' = length d"
    by (simp add: dict_values_def)
  from via_layers_result [OF v] l have
    "resolve_loop k (filter (\<lambda>i. layer_type (dict_values d ! i) = Some ''cut'')
       [0..<length d]) (dict_values d) = Inr ls'"
    by (simp add: dict_values_def)
  moreover from len have "dict_keys d' = dict_keys d" "dict_values d' = ls'"
    by (simp_all add: d' dict_keys_def dict_values_def)
  ultimately show ?thesis using len by blast
qed

lemma load_layerstack_distinct_keys:
  assumes "load_layerstack fp = Inr stack"
  shows "distinct (dict_keys (layers stack))"
proof -
  from assms obtain doc k d where
    b: "build_layers doc [] = Inr d" and r: "resolve_vias k d = Inr (layers stack)"
    by (auto simp: load_layerstack_def split: if_splits option.splits sum.splits)
  from b have "distinct (dict_keys d)"
    by (rule build_layers_distinct) (simp add: dict_keys_def)
  with resolve_vias_result [OF r] show ?thesis by auto
qed

text \<open>
  Claim C10. The via-resolution pass keeps the keys and the order of the dict; it leaves
  every layer whose metadata type is not "cut" as it was; and on every layer it changes
  nothing but \<open>properties.zh\<close> and \<open>properties.th\<close>: the layer with these two blanked is
  the same before and after, so name, lydt, metadata, top, bot and the remaining
  properties are unchanged.
\<close>

theorem via_pass_changes_only_zh_th:
  assumes "resolve_vias layerkey layerstack = Inr layerstack'"
  shows "dict_keys layerstack' = dict_keys layerstack \<and>
         length (dict_values layerstack') = length (dict_values layerstack) \<and>
         (\<forall>i < length layerstack.
            (layer_type (dict_values layerstack ! i) \<noteq> Some ''cut'' \<longrightarrow>
               dict_values layerstack' ! i = dict_values layerstack ! i) \<and>
            erase_zh_th (dict_values layerstack' ! i) = erase_zh_th (dict_values layerstack ! i) \<and>
            name (dict_values layerstack' ! i) = name (dict_values layerstack ! i) \<and>
            lydt (dict_values layerstack' ! i) = lydt (dict_values layerstack ! i) \<and>
            metadata (dict_values layerstack' ! i) = metadata (dict_values layerstack ! i) \<and>
            map_option top_name (properties (dict_values layerstack' ! i)) =
              map_option top_name (properties (dict_values layerstack ! i)) \<and>
            map_option bot_name (properties (dict_values layerstack' ! i)) =
              map_option bot_name (properties (dict_values layerstack ! i)))"
proof -
  let ?ls = "dict_values layerstack"
  let ?vias = "filter (\<lambda>i. layer_type (?ls ! i) = Some ''cut'') [0..<length layerstack]"
  from resolve_vias_result [OF assms] obtain ls' where
    l: "resolve_loop layerkey ?vias ?ls = Inr ls'" and
    len: "length ls' = length layerstack" and
    k: "dict_keys layerstack' = dict_keys layerstack" and v: "dict_values layerstack' = ls'"
    by blast
  from resolve_loop_frame [OF l] have
    same: "\<And>j. j \<notin> set ?vias \<Longrightarrow> ls' ! j = ?ls ! j" and
    er: "\<And>j. erase_zh_th (ls' ! j) = erase_zh_th (?ls ! j)"
    by blast+
  have "ls' ! i = ?ls ! i" if "layer_type (?ls ! i) \<noteq> Some ''cut''" for i
    using that by (intro same) simp
  moreover note er erase_zh_th_fields(1,2,3,5,6) [OF er]
  ultimately show ?thesis using k v len by (simp add: dict_values_def)
qed

theorem via_pass_changes_only_zh_th_witness:
  "resolve_vias ''met2''
     [((1, 0), example_layer ''met1'' ''routing'' 1 0 (Some (PyInt 0)) (Some (PyInt 1)) None None),
       ((2, 0), example_layer ''via1'' ''cut'' 2 0 None None (Some ''met2'') (Some ''met1'')),
       ((3, 0), example_layer ''met2'' ''routing'' 3 0 (Some (PyInt 3)) (Some (PyInt 1)) None None)]
   = Inr
     [((1, 0), example_layer ''met1'' ''routing'' 1 0 (Some (PyInt 0)) (Some (PyInt 1)) None None),
       ((2, 0), example_layer ''via1'' ''cut'' 2 0 (Some (PyInt 1)) (Some (PyInt 2)) (Some ''met2'') (Some ''met1'')),
       ((3, 0), example_layer ''met2'' ''routing'' 3 0 (Some (PyInt 3)) (Some (PyInt 1)) None None)] \<and>
   layer_type (example_layer ''met1'' ''routing'' 1 0 (Some (PyInt 0)) (Some (PyInt 1)) None None) \<noteq> Some ''cut'' \<and>
   dict_values
     [((1, 0), example_layer ''met1'' ''routing'' 1 0 (Some (PyInt 0)) (Some (PyInt 1)) None None),
       ((2, 0), example_layer ''via1'' ''cut'' 2 0 (Some (PyInt 1)) (Some (PyInt 2)) (Some ''met2'') (Some ''met1'')),
       ((3, 0), example_layer ''met2'' ''routing'' 3 0 (Some (PyInt 3)) (Some (PyInt 1)) None None)] ! 0 =
   example_layer ''met1'' ''routing'' 1 0 (Some (PyInt 0)) (Some (PyInt 1)) None None \<and>
   erase_zh_th (dict_values
     [((1, 0), example_layer ''met1'' ''routing'' 1 0 (Some (PyInt 0)) (Some (PyInt 1)) None None),
       ((2, 0), example_layer ''via1'' ''cut'' 2 0 (Some (PyInt 1)) (Some (PyInt 2)) (Some ''met2'') (Some ''met1'')),
       ((3, 0), example_layer ''met2'' ''routing'' 3 0 (Some (PyInt 3)) (Some (PyInt 1)) None None)] ! 1) =
   erase_zh_th (example_layer ''via1'' ''cut'' 2 0 None None (Some ''met2'') (Some ''met1''))"
proof -
  have r: "resolve_vias ''met2''
     [((1, 0), example_layer ''met1'' ''routing'' 1 0 (Some (PyInt 0)) (Some (PyInt 1)) None None),
       ((2, 0), example_layer ''via1'' ''cut'' 2 0 None None (Some ''met2'') (Some ''met1'')),
       ((3, 0), example_layer ''met2'' ''routing'' 3 0 (Some (PyInt 3)) (Some (PyInt 1)) None None)]
   = Inr
     [((1, 0), example_layer ''met1'' ''routing'' 1 0 (Some (PyInt 0)) (Some (PyInt 1)) None None),
       ((2, 0), example_layer ''via1'' ''cut'' 2 0 (Some (PyInt 1)) (Some (PyInt 2)) (Some ''met2'') (Some ''met1'')),
       ((3, 0), example_layer ''met2'' ''routing'' 3 0 (Some (PyInt 3)) (Some (PyInt 1)) None None)]"
    by (simp add: loader_defs upt_small py_add_def py_sub_def)
  from via_pass_changes_only_zh_th [OF r] r show ?thesis
    by (simp add: dict_values_def example_layer_def layer_type_def erase_zh_th_def)
qed

lemma resolve_vias_ok:
  assumes r: "resolve_vias k d = Inr d'" and i: "i < length d'"
    and c: "layer_type (dict_values d' ! i) = Some ''cut''"
  shows "\<exists>vp b t. properties (dict_values d' ! i) = Some vp \<and>
           by_name (dict_values d') (bot_name vp) = Some b \<and>
           by_name (dict_values d') (top_name vp) = Some t \<and>
           (settled (dict_values d') i b \<longrightarrow> zh_is_sum b vp) \<and>
           (settled (dict_values d') i t \<longrightarrow> th_is_difference t vp) \<and>
           (settled (dict_values d') i b \<longrightarrow> settled (dict_values d') i t \<longrightarrow>
              int_heights b t \<longrightarrow> via_resolved (dict_values d') (dict_values d' ! i))"
proof -
  let ?ls = "dict_values d"
  let ?vias = "filter (\<lambda>i. layer_type (?ls ! i) = Some ''cut'') [0..<length d]"
  from resolve_vias_result [OF r] obtain ls' where
    l: "resolve_loop k ?vias ?ls = Inr ls'" and
    len: "length ls' = length d" and v: "dict_values d' = ls'"
    by blast
  from v have "length d' = length ls'" by (auto simp: dict_values_def)
  with i have il: "i < length ls'" by simp
  from resolve_loop_frame [OF l] have er: "\<And>j. erase_zh_th (ls' ! j) = erase_zh_th (?ls ! j)"
    by blast
  from erase_zh_th_fields(4) [OF er, of i] c v have "layer_type (?ls ! i) = Some ''cut''"
    by simp
  with il len have iv: "i \<in> set ?vias" by simp
  have ll: "length ?ls = length d" by (simp add: dict_values_def)
  have "\<forall>i \<in> set ?vias. via_ok ls' i"
    by (rule resolve_loop_ok [OF l]) (simp_all add: ll sorted_wrt_filter)
  with iv have "via_ok ls' i" by blast
  then obtain vp jb jt where
    vp: "properties (ls' ! i) = Some vp" and
    fb: "first_named ls' (bot_name vp) jb" and ft: "first_named ls' (top_name vp) jt" and
    zs: "layer_type (ls' ! jb) \<noteq> Some ''cut'' \<or> jb < i \<Longrightarrow> zh_is_sum (ls' ! jb) vp" and
    ts: "layer_type (ls' ! jt) \<noteq> Some ''cut'' \<or> jt < i \<Longrightarrow> th_is_difference (ls' ! jt) vp"
    unfolding via_ok_def by blast
  have bn: "by_name ls' (bot_name vp) = Some (ls' ! jb)"
    unfolding by_name_first using fb by blast
  have tn: "by_name ls' (top_name vp) = Some (ls' ! jt)"
    unfolding by_name_first using ft by blast
  have zs': "zh_is_sum (ls' ! jb) vp" if "settled ls' i (ls' ! jb)"
    using settled_position [OF fb that] by (rule zs)
  have ts': "th_is_difference (ls' ! jt) vp" if "settled ls' i (ls' ! jt)"
    using settled_position [OF ft that] by (rule ts)
  have vr: "via_resolved ls' (ls' ! i)"
    if "settled ls' i (ls' ! jb)" and "settled ls' i (ls' ! jt)"
      and "int_heights (ls' ! jb) (ls' ! jt)"
    using vp bn tn zs' [OF that(1)] ts' [OF that(2)] that(3) by (rule via_resolved_ints)
  show ?thesis
    unfolding v using vp bn tn zs' ts' vr by blast
qed

text \<open>
  Claim C3, amended. After load_layerstack completes, every layer whose metadata type is
  "cut" has properties whose \<open>bot\<close> and \<open>top\<close> names are found in the stack (first
  match by name). When the \<open>bot\<close> layer is not a cut layer, or is a cut layer that stands
  before the via in the stack, the via's \<open>zh\<close> is the result of Python's
  \<^verbatim>\<open>bot.zh + bot.th\<close>. When the \<open>top\<close> layer is not a cut layer, or is a cut layer that
  stands before the via, the via's \<open>th\<close> is the result of Python's \<^verbatim>\<open>top.zh - zh_via\<close>.
  When both hold and \<open>bot.zh\<close>, \<open>bot.th\<close> and \<open>top.zh\<close> are ints, then
  \<^verbatim>\<open>zh_via == bot.zh + bot.th\<close> and \<^verbatim>\<open>zh_via + th_via == top.zh\<close>.
\<close>

theorem load_layerstack_vias_resolved:
  assumes "load_layerstack fp = Inr stack" and "i < length (layers stack)"
    and "layer_type (dict_values (layers stack) ! i) = Some ''cut''"
  shows "\<exists>vp bot_layer top_layer.
           properties (dict_values (layers stack) ! i) = Some vp \<and>
           by_name (dict_values (layers stack)) (bot_name vp) = Some bot_layer \<and>
           by_name (dict_values (layers stack)) (top_name vp) = Some top_layer \<and>
           (settled (dict_values (layers stack)) i bot_layer \<longrightarrow> zh_is_sum bot_layer vp) \<and>
           (settled (dict_values (layers stack)) i top_layer \<longrightarrow> th_is_difference top_layer vp) \<and>
           (settled (dict_values (layers stack)) i bot_layer \<longrightarrow>
            settled (dict_values (layers stack)) i top_layer \<longrightarrow>
            int_heights bot_layer top_layer \<longrightarrow>
              via_resolved (dict_values (layers stack)) (dict_values (layers stack) ! i))"
proof -
  from assms(1) obtain k d where "resolve_vias k d = Inr (layers stack)"
    by (auto simp: load_layerstack_def split: if_splits option.splits sum.splits)
  from resolve_vias_ok [OF this assms(2,3)] show ?thesis .
qed

theorem load_layerstack_vias_resolved_witness:
  "load_layerstack three_layer_file = Inr three_layer_stack \<and>
   (1 :: nat) < length (layers three_layer_stack) \<and>
   layer_type (dict_values (layers three_layer_stack) ! 1) = Some ''cut'' \<and>
   settled (dict_values (layers three_layer_stack)) 1
     (example_layer ''met1'' ''routing'' 1 0 (Some (PyInt 0)) (Some (PyInt 1)) None None) \<and>
   settled (dict_values (layers three_layer_stack)) 1
     (example_layer ''met2'' ''routing'' 3 0 (Some (PyInt 3)) (Some (PyInt 1)) None None) \<and>
   int_heights
     (example_layer ''met1'' ''routing'' 1 0 (Some (PyInt 0)) (Some (PyInt 1)) None None)
     (example_layer ''met2'' ''routing'' 3 0 (Some (PyInt 3)) (Some (PyInt 1)) None None) \<and>
   via_resolved (dict_values (layers three_layer_stack))
     (dict_values (layers three_layer_stack) ! 1)"
proof -
  have a: "load_layerstack three_layer_file = Inr three_layer_stack"
    by (simp add: loader_defs three_layer_file_def three_layer_stack_def upt_small
        py_add_def py_sub_def)
  have b: "(1 :: nat) < length (layers three_layer_stack)"
    by (simp add: three_layer_stack_def)
  have c: "layer_type (dict_values (layers three_layer_stack) ! 1) = Some ''cut''"
    by (simp add: three_layer_stack_def dict_values_def layer_type_def example_layer_def)
  from load_layerstack_vias_resolved [OF a b c] a b c show ?thesis
    by (simp add: three_layer_stack_def dict_values_def layer_type_def example_layer_def
        by_name_def settled_def int_heights_def via_resolved_def py_add_def py_eq_def)
qed

subsection \<open>Floating-point sums in the float example\<close>

lemma float_sum_bot: "py_add (float_literal 0) (float_literal (3 / 100)) = Inr (float_literal (3 / 100))"
  by code_simp

lemma float_difference_top:
  "py_sub (float_literal (3 / 10)) (float_literal (3 / 100)) = Inr (float_literal (27 / 100))"
  by code_simp

lemma float_sum_via:
  "py_add (float_literal (3 / 100)) (float_literal (27 / 100)) =
     Inr (PyFloat (1351079888211149 / 4503599627370496))"
  by code_simp

lemma float_sum_differs:
  "\<not> py_eq (PyFloat (1351079888211149 / 4503599627370496)) (float_literal (3 / 10))"
  by code_simp

text \<open>
  Claim C3, as stated, fails in two ways. A cut layer may name a cut layer that the pass
  changes after reading it: in the first file \<open>via1\<close> declares \<open>zh = 5\<close>, \<open>th = 2\<close> and
  names itself as \<open>top\<close>; the pass reads \<open>top.zh = 5\<close>, then writes \<open>zh = 0 + 1 = 1\<close>
  and \<open>th = 5 - 1 = 4\<close>, and afterwards \<open>zh + th = 5\<close> but \<open>top.zh = 1\<close>. And on floats
  the sum of the stored values is rounded: in the second file \<open>bot.zh = 0.0\<close>,
  \<open>bot.th = 0.03\<close> and \<open>top.zh = 0.3\<close> give \<open>zh = 0.03\<close> and \<open>th = 0.27\<close>, and
  \<open>0.03 + 0.27\<close> is \<open>0.30000000000000004\<close>, not \<open>0.3\<close>.
\<close>

theorem via_not_resolved_counterexample:
  "load_layerstack self_top_file = Inr self_top_stack \<and>
   layer_type (dict_values (layers self_top_stack) ! 1) = Some ''cut'' \<and>
   \<not> via_resolved (dict_values (layers self_top_stack))
       (dict_values (layers self_top_stack) ! 1) \<and>
   load_layerstack float_file = Inr float_stack \<and>
   layer_type (dict_values (layers float_stack) ! 1) = Some ''cut'' \<and>
   \<not> via_resolved (dict_values (layers float_stack)) (dict_values (layers float_stack) ! 1)"
proof -
  have a: "load_layerstack self_top_file = Inr self_top_stack"
    by (simp add: loader_defs self_top_file_def self_top_stack_def upt_small
        py_add_def py_sub_def)
  have b: "layer_type (dict_values (layers self_top_stack) ! 1) = Some ''cut''"
    by (simp add: self_top_stack_def dict_values_def layer_type_def example_layer_def)
  have c: "\<not> via_resolved (dict_values (layers self_top_stack))
       (dict_values (layers self_top_stack) ! 1)"
    by (simp add: self_top_stack_def dict_values_def example_layer_def by_name_def
        via_resolved_def py_add_def py_eq_def)
  have d: "load_layerstack float_file = Inr float_stack"
    by (simp add: loader_defs float_file_def float_stack_def upt_small
        float_sum_bot float_difference_top)
  have e: "layer_type (dict_values (layers float_stack) ! 1) = Some ''cut''"
    by (simp add: float_stack_def dict_values_def layer_type_def example_layer_def)
  have f: "\<not> via_resolved (dict_values (layers float_stack)) (dict_values (layers float_stack) ! 1)"
    by (simp add: float_stack_def dict_values_def example_layer_def by_name_def
        via_resolved_def float_sum_bot float_sum_via float_sum_differs)
  from a b c d e f show ?thesis by blast
qed

section \<open>Properties of render_to_mesh\<close>

subsection \<open>Evaluating the renderer on the examples\<close>

lemma str_small: "str_nat 0 = ''0''" "str_int 0 = ''0''" "str_int 2 = ''2''"
  by (simp_all add: str_int_def str_nat.simps)

lemmas render_defs =
  render_to_mesh_def select_tcell_def max_by_area_def truthy_def OUT_FILE_EXTENSIONS_def
  small_cell_def large_cell_def one_layer_stack_def example_layer_def unit_extrude_def
  large_cell_result_def getitem_def dict_get_def dict_keys_def
  shell_def holes_def edge_pairs_def edges_def extend_pairs_def is_counter_clockwise_def
  vec_def cross_def fromkeys_def edge_vertices_def str_small

lemma posix_suffix_blend: "posix_suffix ''out/mesh.blend'' = ''.blend''"
  by (simp add: posix_suffix_def)

lemma posix_suffix_glb: "posix_suffix ''mesh.glb'' = ''.glb''"
  by (simp add: posix_suffix_def)

subsection \<open>C5: an output path with an unsupported extension\<close>

text \<open>
  Claim C5, as stated, fails for the empty path: its extension is empty, which is not a
  supported format, but the source tests \<^verbatim>\<open>if out:\<close> before it looks at the extension,
  so with \<^verbatim>\<open>out=""\<close> no check is made, the cell is rendered and the scene is returned
  (nothing is exported).
\<close>

theorem empty_output_path_counterexample:
  "posix_suffix [] \<notin> set OUT_FILE_EXTENSIONS \<and>
   render_to_mesh posix_suffix unit_extrude [small_cell, large_cell] one_layer_stack
       (Some ''crossed_metal'') (Some []) None
     = Inr (large_cell_result () None)"
  by (simp add: render_defs posix_suffix_def)

text \<open>
  Claim C5, amended. For every non-empty output path whose extension is not one of the
  supported formats, render_to_mesh fails with the unsupported-format assertion. The
  result is this error whatever the layout, the layer stack, the colour map and the
  extrusion are: the check comes before every use of them, no polygon is classified,
  assembled or extruded, and no scene is returned.
\<close>

theorem render_rejects_unsupported_output:
  assumes "path \<noteq> []" and "suffix_of path \<notin> set OUT_FILE_EXTENSIONS"
  shows "render_to_mesh suffix_of extrude_polygon layout layerstack topcell (Some path) cmap =
           Inl (AssertionError (UnsupportedOutputFormat (suffix_of path)))"
  using assms by (simp add: render_to_mesh_def truthy_def)

theorem render_rejects_unsupported_output_witness:
  "posix_suffix ''out/mesh.blend'' \<notin> set OUT_FILE_EXTENSIONS \<and>
   render_to_mesh posix_suffix unit_extrude [small_cell, large_cell] one_layer_stack
       (Some ''crossed_metal'') (Some ''out/mesh.blend'') None
     = Inl (AssertionError (UnsupportedOutputFormat ''.blend''))"
proof -
  have b: "''out/mesh.blend'' \<noteq> []" by simp
  have c: "posix_suffix ''out/mesh.blend'' \<notin> set OUT_FILE_EXTENSIONS"
    by (simp add: posix_suffix_blend OUT_FILE_EXTENSIONS_def)
  from render_rejects_unsupported_output
    [where suffix_of = posix_suffix and path = "''out/mesh.blend''", OF b c] c
  show ?thesis
    by (simp add: posix_suffix_blend)
qed

subsection \<open>The cell that is rendered\<close>


lemma first_max_area_snoc:
  assumes "first_max_area ys r"
  shows "first_max_area (ys @ [x]) (if cell_area r < cell_area x then x else r)"
proof -
  from assms obtain k where k: "k < length ys" "r = ys ! k"
    and le: "\<forall>j < length ys. cell_area (ys ! j) \<le> cell_area r"
    and lt: "\<forall>j < k. cell_area (ys ! j) < cell_area r"
    unfolding first_max_area_def by blast
  show ?thesis
  proof (cases "cell_area r < cell_area x")
    case True
    have a: "x = (ys @ [x]) ! length ys" by simp
    have b: "\<forall>j < length (ys @ [x]). cell_area ((ys @ [x]) ! j) \<le> cell_area x"
    proof (intro allI impI)
      fix j assume "j < length (ys @ [x])"
      then consider "j < length ys" | "j = length ys" by force
      then show "cell_area ((ys @ [x]) ! j) \<le> cell_area x"
      proof cases
        case 1
        with le have "cell_area (ys ! j) \<le> cell_area r" by blast
        with True 1 show ?thesis by (simp add: nth_append)
      next
        case 2
        then show ?thesis by simp
      qed
    qed
    have c: "\<forall>j < length ys. cell_area ((ys @ [x]) ! j) < cell_area x"
    proof (intro allI impI)
      fix j assume j: "j < length ys"
      with le have "cell_area (ys ! j) \<le> cell_area r" by blast
      with True j show "cell_area ((ys @ [x]) ! j) < cell_area x" by (simp add: nth_append)
    qed
    have "\<exists>k < length (ys @ [x]). x = (ys @ [x]) ! k \<and>
        (\<forall>j < length (ys @ [x]). cell_area ((ys @ [x]) ! j) \<le> cell_area x) \<and>
        (\<forall>j < k. cell_area ((ys @ [x]) ! j) < cell_area x)"
      using a b c by (intro exI [of _ "length ys"]) simp
    with True show ?thesis unfolding first_max_area_def by simp
  next
    case False
    have a: "r = (ys @ [x]) ! k" using k by (simp add: nth_append)
    have b: "\<forall>j < length (ys @ [x]). cell_area ((ys @ [x]) ! j) \<le> cell_area r"
    proof (intro allI impI)
      fix j assume "j < length (ys @ [x])"
      then consider "j < length ys" | "j = length ys" by force
      then show "cell_area ((ys @ [x]) ! j) \<le> cell_area r"
      proof cases
        case 1
        with le show ?thesis by (simp add: nth_append)
      next
        case 2
        with False show ?thesis by simp
      qed
    qed
    have c: "\<forall>j < k. cell_area ((ys @ [x]) ! j) < cell_area r"
      using lt k by (simp add: nth_append)
    have "\<exists>k < length (ys @ [x]). r = (ys @ [x]) ! k \<and>
        (\<forall>j < length (ys @ [x]). cell_area ((ys @ [x]) ! j) \<le> cell_area r) \<and>
        (\<forall>j < k. cell_area ((ys @ [x]) ! j) < cell_area r)"
      using a b c k by (intro exI [of _ k]) simp
    with False show ?thesis unfolding first_max_area_def by simp
  qed
qed

lemma foldl_first_max_area:
  "first_max_area (c # cs)
     (foldl (\<lambda>best x. if cell_area best < cell_area x then x else best) c cs)"
proof (induction cs rule: rev_induct)
  case Nil
  show ?case by (simp add: first_max_area_def)
next
  case (snoc x xs)
  from first_max_area_snoc [OF snoc, of x] show ?case by simp
qed

lemma max_by_area_first_max:
  assumes "cells \<noteq> []"
  shows "\<exists>c. max_by_area cells = Inr c \<and> first_max_area cells c"
  using assms foldl_first_max_area by (cases cells) (simp_all add: max_by_area_def)

lemma select_tcell_absent:
  assumes "cells \<noteq> []" and "topcell \<notin> Some ` set (map cell_name cells)"
  shows "\<exists>c. select_tcell cells topcell emitted = Inr (c, emitted) \<and> first_max_area cells c"
proof -
  from max_by_area_first_max [OF assms(1)] obtain c where
    c: "max_by_area cells = Inr c" "first_max_area cells c" by blast
  with assms(2) show ?thesis
    by (cases topcell) (auto simp: select_tcell_def)
qed

lemma select_tcell_present:
  assumes "t \<in> set (map cell_name cells)"
  shows "\<exists>c k. select_tcell cells (Some t) emitted = Inr (c, emitted) \<and>
           k < length cells \<and> c = cells ! k \<and> cell_name c = t \<and>
           (\<forall>j < k. cell_name (cells ! j) \<noteq> t)"
proof -
  from assms have ne: "cells \<noteq> []" by auto
  from max_by_area_first_max [OF ne] obtain m where m: "max_by_area cells = Inr m" by blast
  from assms obtain c where c: "find (\<lambda>c. cell_name c = t) cells = Some c"
    by (cases "find (\<lambda>c. cell_name c = t) cells") (auto simp: find_None_iff)
  then obtain k where "k < length cells" "cell_name (cells ! k) = t" "c = cells ! k"
    "\<forall>j < k. cell_name (cells ! j) \<noteq> t"
    unfolding find_Some_iff by blast
  moreover from m c assms have "select_tcell cells (Some t) emitted = Inr (c, emitted)"
    by (simp add: select_tcell_def)
  ultimately show ?thesis by blast
qed

lemma render_to_mesh_result:
  assumes "render_to_mesh suffix_of extrude_polygon layout layerstack topcell out cmap = Inr r"
  shows "\<exists>tcell cm cs.
           select_tcell layout topcell [] = Inr (tcell, []) \<and>
           (case cmap of None \<Rightarrow> default_cmap tcell layerstack (dict_keys (layers layerstack)) []
                       | Some c \<Rightarrow> Inr c) = Inr cm \<and>
           render_layers extrude_polygon cm tcell layerstack (dict_keys (layers layerstack)) = Inr cs \<and>
           r = \<lparr> canvas = \<lparr> base_frame = cell_name tcell, scene_id = cell_name tcell, children = cs \<rparr>,
                 exported = (if truthy out then out else None), warnings_emitted = [] \<rparr>"
proof -
  have em: "select_tcell layout topcell [] = Inr (tc, em) \<Longrightarrow> em = []" for tc em
    by (auto simp: select_tcell_def split: sum.splits option.splits if_splits)
  from assms show ?thesis
    by (auto simp: render_to_mesh_def split: if_splits sum.splits prod.splits dest: em)
qed

lemma render_to_mesh_never_warns:
  assumes "render_to_mesh suffix_of extrude_polygon layout layerstack topcell out cmap = Inr r"
  shows "warnings_emitted r = []"
  using render_to_mesh_result [OF assms] by auto

text \<open>
  Claim C4 on a layout without the requested cell: asked for \<open>top\<close>, which is not among
  the cells \<open>pad\<close> (area 1) and \<open>crossed_metal\<close> (area 4), render_to_mesh renders
  \<open>crossed_metal\<close>, the cell of maximum area, and returns; no warning has been emitted.
\<close>

theorem missing_topcell_renders_largest_without_warning:
  "''top'' \<notin> set (map cell_name [small_cell, large_cell]) \<and>
   render_to_mesh posix_suffix unit_extrude [small_cell, large_cell] one_layer_stack
       (Some ''top'') None None
     = Inr (large_cell_result () None) \<and>
   base_frame (canvas (large_cell_result () None)) = cell_name large_cell \<and>
   warnings_emitted (large_cell_result () None) = []"
  by (simp add: render_defs)

subsection \<open>C7: two renderings of the same input\<close>

lemma render_polys_outline:
  assumes "render_polys ex1 cmap lay dtype h1 z1 idx polys = Inr ns1"
    and "render_polys ex2 cmap lay dtype h2 z2 idx polys = Inr ns2"
  shows "map node_outline ns1 = map node_outline ns2"
  using assms
proof (induction polys arbitrary: idx ns1 ns2)
  case Nil
  then show ?case by simp
next
  case (Cons vertices polys)
  from Cons.prems(1) obtain g1 lc c ms1 where
    a: "dict_get cmap (lay, dtype) = Some lc" "dict_get lc idx = Some c"
      "render_polys ex1 cmap lay dtype h1 z1 (Suc idx) polys = Inr ms1"
      "ns1 = \<lparr> node_name = str_int lay @ '','' @ str_int dtype @ '','' @ str_nat idx,
                node_id = str_int lay @ '','' @ str_int dtype @ '','' @ str_nat idx,
                face_colors = c, geometry = g1 \<rparr> # ms1"
    by (auto split: sum.splits option.splits)
  from Cons.prems(2) a(1,2) obtain g2 ms2 where
    b: "render_polys ex2 cmap lay dtype h2 z2 (Suc idx) polys = Inr ms2"
      "ns2 = \<lparr> node_name = str_int lay @ '','' @ str_int dtype @ '','' @ str_nat idx,
                node_id = str_int lay @ '','' @ str_int dtype @ '','' @ str_nat idx,
                face_colors = c, geometry = g2 \<rparr> # ms2"
    by (auto split: sum.splits option.splits)
  from Cons.IH [OF a(3) b(1)] a(4) b(2) show ?case
    by (simp add: node_outline_def)
qed

lemma render_layers_outline:
  assumes "render_layers ex1 cmap tcell layerstack ks = Inr cs1"
    and "render_layers ex2 cmap tcell layerstack ks = Inr cs2"
  shows "map layer_outline cs1 = map layer_outline cs2"
  using assms
proof (induction ks arbitrary: cs1 cs2)
  case Nil
  then show ?case by simp
next
  case (Cons key ks)
  obtain lay dtype where key: "key = (lay, dtype)" by (cases key)
  from Cons.prems(1) key obtain l pr zbot height ns1 rest1 where
    a: "getitem layerstack (lay, dtype) = Some l" "properties l = Some pr"
      "zh pr = Some zbot" "th pr = Some height"
      "render_polys ex1 cmap lay dtype height zbot 0 (get_polygons tcell lay dtype) = Inr ns1"
      "render_layers ex1 cmap tcell layerstack ks = Inr rest1"
      "cs1 = (str_int lay @ '','' @ str_int dtype, str_int lay @ '','' @ str_int dtype,
              \<lparr> layer_base_frame = cell_name tcell,
                layer_id = str_int lay @ '','' @ str_int dtype @ '','' @ name l,
                nodes = ns1 \<rparr>) # rest1"
    by (auto simp: Let_def split: sum.splits option.splits)
  from Cons.prems(2) key a(1-4) obtain ns2 rest2 where
    b: "render_polys ex2 cmap lay dtype height zbot 0 (get_polygons tcell lay dtype) = Inr ns2"
      "render_layers ex2 cmap tcell layerstack ks = Inr rest2"
      "cs2 = (str_int lay @ '','' @ str_int dtype, str_int lay @ '','' @ str_int dtype,
              \<lparr> layer_base_frame = cell_name tcell,
                layer_id = str_int lay @ '','' @ str_int dtype @ '','' @ name l,
                nodes = ns2 \<rparr>) # rest2"
    by (auto simp: Let_def split: sum.splits option.splits)
  from render_polys_outline [OF a(5) b(1)] Cons.IH [OF a(6) b(2)] a(7) b(3)
  show ?case by (simp add: layer_outline_def)
qed

text \<open>
  Claim C7. Two calls of render_to_mesh on the same layout, layer stack and top-cell name,
  without an explicit colour map, that both return, return scenes with the same outline:
  the same layer scenes in the same order, with the same node names, metadata ids and
  face colours, hence the same node counts. This holds whatever the two calls' extrusions
  and output paths are: names, order and colours do not depend on them.
\<close>

theorem render_to_mesh_deterministic:
  assumes "render_to_mesh suffix1 extrude1 layout layerstack topcell out1 None = Inr r1"
    and "render_to_mesh suffix2 extrude2 layout layerstack topcell out2 None = Inr r2"
  shows "scene_outline (canvas r1) = scene_outline (canvas r2) \<and>
         length (children (canvas r1)) = length (children (canvas r2)) \<and>
         map (\<lambda>c. length (nodes (snd (snd c)))) (children (canvas r1)) =
           map (\<lambda>c. length (nodes (snd (snd c)))) (children (canvas r2))"
proof -
  from render_to_mesh_result [OF assms(1)] obtain tcell cm cs1 where
    a: "select_tcell layout topcell [] = Inr (tcell, [])"
      "default_cmap tcell layerstack (dict_keys (layers layerstack)) [] = Inr cm"
      "render_layers extrude1 cm tcell layerstack (dict_keys (layers layerstack)) = Inr cs1"
      "canvas r1 = \<lparr> base_frame = cell_name tcell, scene_id = cell_name tcell, children = cs1 \<rparr>"
    by auto
  from render_to_mesh_result [OF assms(2)] a(1,2) obtain cs2 where
    b: "render_layers extrude2 cm tcell layerstack (dict_keys (layers layerstack)) = Inr cs2"
      "canvas r2 = \<lparr> base_frame = cell_name tcell, scene_id = cell_name tcell, children = cs2 \<rparr>"
    by auto
  have o: "map layer_outline cs1 = map layer_outline cs2"
    by (rule render_layers_outline [OF a(3) b(1)])
  then have "length cs1 = length cs2" by (rule map_eq_imp_length_eq)
  moreover have "map (\<lambda>c. length (nodes (snd (snd c)))) cs1 = map (\<lambda>c. length (nodes (snd (snd c)))) cs2"
  proof -
    have "map (\<lambda>c. length (snd (snd (snd (snd (layer_outline c)))))) cs1 =
          map (\<lambda>c. length (snd (snd (snd (snd (layer_outline c)))))) cs2"
      using arg_cong [OF o, of "map (\<lambda>x. length (snd (snd (snd (snd x)))))"]
      by (simp add: comp_def)
    then show ?thesis by (simp add: layer_outline_def)
  qed
  ultimately show ?thesis using o a(4) b(2) by (simp add: scene_outline_def)
qed

theorem render_to_mesh_deterministic_witness:
  "render_to_mesh posix_suffix unit_extrude [small_cell, large_cell] one_layer_stack
       (Some ''crossed_metal'') None None
     = Inr (large_cell_result () None) \<and>
   render_to_mesh posix_suffix span_extrude [small_cell, large_cell] one_layer_stack
       (Some ''crossed_metal'') (Some ''mesh.glb'') None
     = Inr (large_cell_result (PyInt 0, PyInt 1) (Some ''mesh.glb'')) \<and>
   scene_outline (canvas (large_cell_result () None)) =
     scene_outline (canvas (large_cell_result (PyInt 0, PyInt 1) (Some ''mesh.glb'')))"
proof -
  have a: "render_to_mesh posix_suffix unit_extrude [small_cell, large_cell] one_layer_stack
       (Some ''crossed_metal'') None None
     = Inr (large_cell_result () None)"
    by (simp add: render_defs)
  have b: "render_to_mesh posix_suffix span_extrude [small_cell, large_cell] one_layer_stack
       (Some ''crossed_metal'') (Some ''mesh.glb'') None
     = Inr (large_cell_result (PyInt 0, PyInt 1) (Some ''mesh.glb''))"
    by (simp add: render_defs span_extrude_def posix_suffix_glb)
  from render_to_mesh_deterministic [OF a b] a b show ?thesis by simp
qed

section \<open>Properties of the extrusion\<close>

subsection \<open>The heights that the extrusion receives\<close>

lemma render_polys_passes_heights:
  assumes contract: "\<And>sh ho g. extrude_polygon sh ho height zbot = Inr g \<Longrightarrow> P g"
    and r: "render_polys extrude_polygon cmap lay dty height zbot idx polys = Inr ns"
  shows "\<forall>n \<in> set ns. P (geometry n)"
  using r
proof (induction polys arbitrary: idx ns)
  case Nil
  then show ?case by simp
next
  case (Cons vertices polys)
  from Cons.prems obtain g c ms where
    g: "extrude_polygon (shell vertices) (holes vertices) height zbot = Inr g" and
    ms: "render_polys extrude_polygon cmap lay dty height zbot (Suc idx) polys = Inr ms" and
    ns: "ns = \<lparr> node_name = str_int lay @ '','' @ str_int dty @ '','' @ str_nat idx,
               node_id = str_int lay @ '','' @ str_int dty @ '','' @ str_nat idx,
               face_colors = c, geometry = g \<rparr> # ms"
    by (auto split: sum.splits option.splits)
  from contract [OF g] Cons.IH [OF ms] ns show ?case by simp
qed

lemma render_layers_passes_heights:
  assumes contract: "\<And>sh ho height zbot g. extrude_polygon sh ho height zbot = Inr g \<Longrightarrow> P height zbot g"
    and r: "render_layers extrude_polygon cmap tcell layerstack ks = Inr cs"
  shows "\<forall>c \<in> set cs. \<exists>key \<in> set ks. \<exists>l pr zbot height.
           getitem layerstack key = Some l \<and> properties l = Some pr \<and>
           zh pr = Some zbot \<and> th pr = Some height \<and>
           (\<forall>n \<in> set (nodes (snd (snd c))). P height zbot (geometry n))"
  using r
proof (induction ks arbitrary: cs)
  case Nil
  then show ?case by simp
next
  case (Cons key ks)
  obtain lay dty where key: "key = (lay, dty)" by (cases key)
  from Cons.prems key obtain l pr zbot height ns rest where
    a: "getitem layerstack (lay, dty) = Some l" "properties l = Some pr"
      "zh pr = Some zbot" "th pr = Some height"
      "render_polys extrude_polygon cmap lay dty height zbot 0 (get_polygons tcell lay dty) = Inr ns"
      "render_layers extrude_polygon cmap tcell layerstack ks = Inr rest"
      "cs = (str_int lay @ '','' @ str_int dty, str_int lay @ '','' @ str_int dty,
              \<lparr> layer_base_frame = cell_name tcell,
                layer_id = str_int lay @ '','' @ str_int dty @ '','' @ name l,
                nodes = ns \<rparr>) # rest"
    by (auto simp: Let_def split: sum.splits option.splits)
  have "\<forall>n \<in> set ns. P height zbot (geometry n)"
    by (rule render_polys_passes_heights [OF contract a(5)])
  with a(1-4) key have first: "\<exists>key' \<in> set (key # ks). \<exists>l pr zbot height.
           getitem layerstack key' = Some l \<and> properties l = Some pr \<and>
           zh pr = Some zbot \<and> th pr = Some height \<and>
           (\<forall>n \<in> set ns. P height zbot (geometry n))"
    by auto
  from Cons.IH [OF a(6)] have "\<forall>c \<in> set rest. \<exists>key' \<in> set (key # ks). \<exists>l pr zbot height.
           getitem layerstack key' = Some l \<and> properties l = Some pr \<and>
           zh pr = Some zbot \<and> th pr = Some height \<and>
           (\<forall>n \<in> set (nodes (snd (snd c))). P height zbot (geometry n))"
    by auto
  with first a(7) show ?case by simp
qed

subsection \<open>C8: the Z-extent of an extruded solid\<close>

lemma non_degenerate_not_Nil: "non_degenerate sh \<Longrightarrow> sh \<noteq> []"
  by (auto simp: non_degenerate_def)

lemma z_extent_extruded:
  assumes "xs \<noteq> []" and "0 < height"
  shows "z_extent \<lparr> wall_rings = rs,
           corners = map (\<lambda>p. (fst p, snd p, zbase)) xs @
                     map (\<lambda>p. (fst p, snd p, zbase + height)) xs \<rparr>
         = Some (zbase, zbase + height)"
proof -
  from assms(1) have s: "set (map (\<lambda>c. snd (snd c))
      (map (\<lambda>p. (fst p, snd p, zbase)) xs @ map (\<lambda>p. (fst p, snd p, zbase + height)) xs))
      = {zbase, zbase + height}"
    by (simp add: image_image image_constant_conv image_Un insert_commute)
  from assms(2) have "Min {zbase, zbase + height} = zbase" "Max {zbase, zbase + height} = zbase + height"
    by simp_all
  with s assms(1) show ?thesis by (simp add: z_extent_def)
qed

text \<open>
  Claim C8. For every shape whose shell is not degenerate, extruded with a base height
  \<open>zbase\<close> and a positive thickness \<open>height\<close>, the extrusion of the specification
  returns a solid whose bounding interval in Z is exactly \<open>[zbase, zbase + height]\<close>; in
  particular the unit square extruded with \<open>height = 1\<close> at \<open>zbase = 5\<close> spans exactly
  \<open>[5, 6]\<close>.
\<close>

theorem extruded_solid_z_extent:
  "(non_degenerate sh \<longrightarrow> 0 < height \<longrightarrow>
      (\<exists>s. extrude_polygon_spec sh ho height zbase = Inr s \<and>
           z_extent s = Some (zbase, zbase + height))) \<and>
   (\<exists>s. extrude_polygon_spec [(0, 0), (1, 0), (1, 1), (0, 1)] [] 1 5 = Inr s \<and>
        z_extent s = Some (5, 6))"
proof -
  have gen: "\<exists>s. extrude_polygon_spec sh' ho' h z = Inr s \<and> z_extent s = Some (z, z + h)"
    if "non_degenerate sh'" and "0 < h" for sh' ho' h z
  proof -
    from that(1) have "sh' @ ho' \<noteq> []" by (simp add: non_degenerate_not_Nil)
    from z_extent_extruded [OF this that(2)] that show ?thesis
      by (simp add: extrude_polygon_spec_def)
  qed
  have sq: "non_degenerate [(0, 0), (1, 0), (1, 1), (0, 1)]"
    by (simp add: non_degenerate_def cross_def vec_def)
  from gen [OF sq, of 1 "[]" 5] gen show ?thesis by simp
qed

theorem extruded_solid_z_extent_witness:
  "non_degenerate [(0, 0), (0, 2), (2, 2), (2, 0)] \<and> (0 :: rat) < 3 / 2 \<and>
   extrude_polygon_spec [(0, 0), (0, 2), (2, 2), (2, 0)] [] (3 / 2) (1 / 2) =
     Inr \<lparr> wall_rings = [[(0, 0), (0, 2), (2, 2), (2, 0)], []],
           corners = [(0, 0, 1 / 2), (0, 2, 1 / 2), (2, 2, 1 / 2), (2, 0, 1 / 2),
                      (0, 0, 2), (0, 2, 2), (2, 2, 2), (2, 0, 2)] \<rparr> \<and>
   z_extent \<lparr> wall_rings = [[(0, 0), (0, 2), (2, 2), (2, 0)], []],
           corners = [(0, 0, 1 / 2), (0, 2, 1 / 2), (2, 2, 1 / 2), (2, 0, 1 / 2),
                      (0, 0, 2), (0, 2, 2), (2, 2, 2), (2, 0, 2)] \<rparr> = Some (1 / 2, 2)"
proof -
  have a: "non_degenerate [(0, 0), (0, 2), (2, 2), (2, 0)]"
    by (simp add: non_degenerate_def cross_def vec_def)
  have b: "(0 :: rat) < 3 / 2" by simp
  have c: "extrude_polygon_spec [(0, 0), (0, 2), (2, 2), (2, 0)] [] (3 / 2) (1 / 2) =
     Inr \<lparr> wall_rings = [[(0, 0), (0, 2), (2, 2), (2, 0)], []],
           corners = [(0, 0, 1 / 2), (0, 2, 1 / 2), (2, 2, 1 / 2), (2, 0, 1 / 2),
                      (0, 0, 2), (0, 2, 2), (2, 2, 2), (2, 0, 2)] \<rparr>"
    using a by (simp add: extrude_polygon_spec_def)
  from extruded_solid_z_extent [of "[(0, 0), (0, 2), (2, 2), (2, 0)]" "3 / 2" "[]" "1 / 2"] a b c
  show ?thesis by simp
qed

end
